theory Spec2Isabelle
  imports Main
begin

section \<open>JavaScript values\<close>

text \<open>
  Data that the source types as \<open>any\<close>, or that crosses the wire as JSON, is a \<open>jsval\<close>.
  \<open>JNum\<close> stands for the integer-valued numbers whose \<open>String()\<close> is their decimal
  numeral (HTTP status codes, sheet ids, row numbers); fractions are not represented.
  An object is an association list in key order; \<open>obj\<close> is the type of values the
  source declares to be objects.
\<close>

datatype jsval =
    JUndefined
  | JNull
  | JBool bool
  | JNum int
  | JStr string
  | JArr "jsval list"
  | JObj "(string \<times> jsval) list"

type_synonym obj = "(string \<times> jsval) list"

text \<open>\<open>!v\<close> is \<open>\<not> truthy v\<close>.\<close>

fun truthy :: "jsval \<Rightarrow> bool" where
  "truthy JUndefined = False"
| "truthy JNull = False"
| "truthy (JBool b) = b"
| "truthy (JNum n) = (n \<noteq> 0)"
| "truthy (JStr s) = (s \<noteq> [])"
| "truthy (JArr xs) = True"
| "truthy (JObj kvs) = True"

text \<open>\<open>o[k]\<close> on an object: the value of an absent key is \<open>undefined\<close>.\<close>

definition obj_get :: "obj \<Rightarrow> string \<Rightarrow> jsval" where
  "obj_get kvs k = (case map_of kvs k of None \<Rightarrow> JUndefined | Some v \<Rightarrow> v)"

text \<open>
  \<open>v.k\<close> for a named key \<open>k\<close> on a value that is neither \<open>null\<close> nor \<open>undefined\<close>:
  primitives and arrays have no such member.
\<close>

fun js_get :: "jsval \<Rightarrow> string \<Rightarrow> jsval" where
  "js_get (JObj kvs) k = obj_get kvs k"
| "js_get v k = JUndefined"

text \<open>\<open>{...a, k: v}\<close>: an existing key keeps its place, a new key goes last.\<close>

fun obj_set :: "string \<Rightarrow> jsval \<Rightarrow> obj \<Rightarrow> obj" where
  "obj_set k v [] = [(k, v)]"
| "obj_set k v ((k', v') # kvs) =
     (if k' = k then (k, v) # kvs else (k', v') # obj_set k v kvs)"

text \<open>\<open>{...a, ...b}\<close>\<close>

definition obj_spread :: "obj \<Rightarrow> obj \<Rightarrow> obj" where
  "obj_spread a b = foldl (\<lambda>acc (k, v). obj_set k v acc) a b"

subsection \<open>Rendering in template literals\<close>

definition digit :: "nat \<Rightarrow> char" where
  "digit d = ''0123456789'' ! d"

fun show_nat :: "nat \<Rightarrow> string" where
  "show_nat n = (if n < 10 then [digit n] else show_nat (n div 10) @ [digit (n mod 10)])"

declare show_nat.simps [simp del]

definition show_int :: "int \<Rightarrow> string" where
  "show_int i = (if i < 0 then CHR ''-'' # show_nat (nat (- i)) else show_nat (nat i))"

fun join_comma :: "string list \<Rightarrow> string" where
  "join_comma [] = []"
| "join_comma [s] = s"
| "join_comma (s # t # ss) = s @ '','' @ join_comma (t # ss)"

text \<open>\<open>`${v}`\<close>, which is \<open>String(v)\<close>.\<close>

fun js_to_string :: "jsval \<Rightarrow> string" where
  "js_to_string JUndefined = ''undefined''"
| "js_to_string JNull = ''null''"
| "js_to_string (JBool b) = (if b then ''true'' else ''false'')"
| "js_to_string (JNum n) = show_int n"
| "js_to_string (JStr s) = s"
| "js_to_string (JArr xs) =
     join_comma (map (\<lambda>x. if x = JUndefined \<or> x = JNull then [] else js_to_string x) xs)"
| "js_to_string (JObj kvs) = ''[object Object]''"

section \<open>Errors\<close>

text \<open>
  The failure side of an axios call: \<open>error.message\<close>, and \<open>error.response\<close> with its
  \<open>status\<close> and \<open>data\<close> when the server answered.
\<close>

record AxiosResponse =
  status :: int
  data :: jsval

record AxiosError =
  message :: string
  response :: "AxiosResponse option"

text \<open>
  Every \<open>throw new Error(msg)\<close> of the source is a constructor carrying \<open>msg\<close>; the
  constructor is the name the specification's taxonomy gives that failure.
  \<open>Transport\<close> is a thrown \<open>AxiosError\<close>, \<open>TypeError\<close> a member read on \<open>undefined\<close>,
  \<open>External\<close> a rejection that comes out of an injected credential provider.
\<close>

datatype error =
    InvalidCredential string
  | NotLoaded string
  | RowDeleted string
  | UnsupportedExportTarget string
  | UnsupportedFilterForCredential string
  | InvalidFilter string
  | AccessDeniedPrivateDocument string
  | DirectAssignment string
  | TypeError string
  | External string
  | Transport AxiosError

section \<open>Credential resolver\<close>

text \<open>
  \<open>GoogleSpreadsheetAuth\<close> is told apart structurally, by the members the object has.
  A member that is absent is \<open>None\<close>. For the two refreshable shapes the member holds
  what awaiting it yields: a rejection with its message, or the token then read from
  \<open>credentials.access_token\<close> (JWT) or \<open>credentials.token\<close> (OAuth), where \<open>None\<close> is
  \<open>null\<close> or \<open>undefined\<close>.
\<close>

record GoogleSpreadsheetAuth =
  apiKey :: "string option"
  authorize :: "(string + string option) option"
  getAccessToken :: "(string + string option) option"
  token :: "string option"

datatype AUTH_MODES = API_KEY | RAW_ACCESS_TOKEN | JWT | OAUTH

definition getAuthMode :: "GoogleSpreadsheetAuth \<Rightarrow> error + AUTH_MODES" where
  "getAuthMode auth =
     (if apiKey auth \<noteq> None then Inr API_KEY
      else if authorize auth \<noteq> None then Inr JWT
      else if getAccessToken auth \<noteq> None then Inr OAUTH
      else if token auth \<noteq> None then Inr RAW_ACCESS_TOKEN
      else Inl (InvalidCredential ''Invalid auth''))"

text \<open>
  What \<open>getRequestAuthConfig\<close> returns: \<open>{ params: { key } }\<close> or
  \<open>{ headers: { Authorization } }\<close>; the member it does not set is \<open>None\<close>.
\<close>

record authConfig =
  auth_headers :: "obj option"
  auth_params :: "obj option"

definition getRequestAuthConfig :: "GoogleSpreadsheetAuth \<Rightarrow> error + authConfig" where
  "getRequestAuthConfig auth =
     (case apiKey auth of
        Some k \<Rightarrow> Inr \<lparr>auth_headers = None, auth_params = Some [(''key'', JStr k)]\<rparr>
      | None \<Rightarrow>
         (case (case authorize auth of
                  Some r \<Rightarrow> r
                | None \<Rightarrow>
                   (case getAccessToken auth of
                      Some r \<Rightarrow> r
                    | None \<Rightarrow>
                       (case token auth of
                          Some t \<Rightarrow> Inr (Some t)
                        | None \<Rightarrow> Inr None))) of
            Inl rejection \<Rightarrow> Inl (External rejection)
          | Inr authToken \<Rightarrow>
             (case authToken of
                None \<Rightarrow> Inl (InvalidCredential ''Invalid auth'')
              | Some t \<Rightarrow>
                 if t = [] then Inl (InvalidCredential ''Invalid auth'')
                 else Inr \<lparr>auth_headers = Some [(''Authorization'', JStr (''Bearer '' @ t))],
                           auth_params = None\<rparr>)))"

section \<open>Transport client\<close>

text \<open>
  \<open>_handleAxiosErrors\<close> always throws; the model returns what it throws.
\<close>

text \<open>\<open>error.response && error.response.data\<close>\<close>

definition response_data :: "AxiosError \<Rightarrow> jsval" where
  "response_data err = (case response err of None \<Rightarrow> JUndefined | Some r \<Rightarrow> data r)"

text \<open>\<open>_.get(error, 'response.status')\<close>, \<open>None\<close> for \<open>undefined\<close>\<close>

definition response_status :: "AxiosError \<Rightarrow> int option" where
  "response_status err = (case response err of None \<Rightarrow> None | Some r \<Rightarrow> Some (status r))"

definition handleAxiosErrors :: "GoogleSpreadsheetAuth \<Rightarrow> AxiosError \<Rightarrow> error" where
  "handleAxiosErrors auth err =
     (let d = response_data err in
      if truthy d then
        (if \<not> truthy (js_get d ''error'') then Transport err
         else
           (let code = js_get (js_get d ''error'') ''code'';
                msg = js_get (js_get d ''error'') ''message''
            in Transport (err\<lparr>message :=
                 ''Google API error - ['' @ js_to_string code @ ''] '' @ js_to_string msg\<rparr>)))
      else if response_status err = Some 403 \<and> apiKey auth \<noteq> None then
        AccessDeniedPrivateDocument
          ''Sheet is private. Use authentication or make public. (see https://github.com/theoephraim/node-google-spreadsheet#a-note-on-authentication for details)''
      else Transport err)"

text \<open>
  A request as axios is asked to send it. \<open>http_method\<close> and \<open>body\<close> are the
  members the source calls \<open>method\<close> and \<open>data\<close>; a \<open>baseURL\<close> of \<open>None\<close> leaves
  the instance's own in force.
\<close>

record AxiosRequestConfig =
  baseURL :: "string option"
  http_method :: string
  url :: string
  params :: obj
  body :: jsval
  headers :: obj
  responseType :: "string option"

definition SHEETS_API_BASE_URL :: string where
  "SHEETS_API_BASE_URL = ''https://sheets.googleapis.com/v4/spreadsheets''"

definition DRIVE_API_BASE_URL :: string where
  "DRIVE_API_BASE_URL = ''https://www.googleapis.com/drive/v3/files''"

text \<open>The requests put on the wire so far, oldest first.\<close>

type_synonym net = "AxiosRequestConfig list"

definition setAxiosRequestAuth ::
  "GoogleSpreadsheetAuth \<Rightarrow> AxiosRequestConfig \<Rightarrow> error + AxiosRequestConfig" where
  "setAxiosRequestAuth auth config =
     (case getRequestAuthConfig auth of
        Inl e \<Rightarrow> Inl e
      | Inr authConfig \<Rightarrow>
          Inr (config\<lparr>
            headers := obj_spread (headers config)
                         (case auth_headers authConfig of None \<Rightarrow> [] | Some h \<Rightarrow> h),
            params := obj_spread (params config)
                        (case auth_params authConfig of None \<Rightarrow> [] | Some p \<Rightarrow> p)\<rparr>))"

text \<open>
  One call on an axios instance created with base URL \<open>base\<close> and the two
  interceptors. \<open>outcome\<close> is what the wire answers: an \<open>AxiosError\<close> or the
  response's \<open>data\<close>. When the request interceptor throws, nothing is sent. Its
  error has no \<open>response\<close> (the rejection of a credential provider is taken to have
  none either), so \<open>_handleAxiosErrors\<close> throws it on as it is.
\<close>

definition axios_request ::
  "GoogleSpreadsheetAuth \<Rightarrow> string \<Rightarrow> AxiosRequestConfig \<Rightarrow> AxiosError + 'r \<Rightarrow> net
     \<Rightarrow> (error + 'r) \<times> net" where
  "axios_request auth base config outcome net =
     (case setAxiosRequestAuth auth config of
        Inl e \<Rightarrow> (Inl e, net)
      | Inr config' \<Rightarrow>
          ((case outcome of
              Inl err \<Rightarrow> Inl (handleAxiosErrors auth err)
            | Inr r \<Rightarrow> Inr r),
           net @ [config'\<lparr>baseURL :=
                    Some (case baseURL config' of None \<Rightarrow> base | Some b \<Rightarrow> b)\<rparr>]))"

section \<open>Document cache\<close>

text \<open>
  Modelled from the spec: \<open>WorksheetProperties\<close>, declared in \<open>shared-types\<close>, which
  the sources at hand lack. Section 3 gives a worksheet a stable id, a title and an
  index, section 6 the wire names \<open>sheetId\<close>, \<open>title\<close>, \<open>index\<close>; every other member
  is kept in \<open>rest\<close>.
\<close>

record WorksheetProperties =
  sheetId :: nat
  title :: string
  index :: nat
  rest :: obj

text \<open>One entry of \<open>sheets\<close> in a spreadsheet resource.\<close>

record sheetInfo =
  properties :: WorksheetProperties
  sheet_data :: jsval

text \<open>
  The spreadsheet resource the service returns: the answer of \<open>GET /\<close>, of
  \<open>:getByDataFilter\<close>, of the creation call, and \<open>updatedSpreadsheet\<close> in the
  answer of \<open>:batchUpdate\<close>.
\<close>

record Spreadsheet =
  res_spreadsheetId :: string
  res_spreadsheetUrl :: string
  res_properties :: obj
  res_sheets :: "sheetInfo list"

record BatchUpdateResponse =
  updatedSpreadsheet :: Spreadsheet
  replies :: "obj list"

text \<open>
  The class \<open>GoogleSpreadsheetWorksheet\<close> is not among the sources at hand. What the
  document cache uses of it is a parameter: the constructor, \<open>updateRawData\<close>, and
  the two getters that \<open>_.sortBy\<close> and \<open>_.keyBy\<close> read. \<open>'w\<close> is the state of a
  worksheet object.
\<close>

record 'w WorksheetClass =
  new_Worksheet :: "WorksheetProperties \<Rightarrow> jsval \<Rightarrow> 'w"
  updateRawData :: "WorksheetProperties \<Rightarrow> jsval \<Rightarrow> 'w \<Rightarrow> 'w"
  ws_title :: "'w \<Rightarrow> string"
  ws_index :: "'w \<Rightarrow> nat"

text \<open>
  A worksheet object: the identity it was constructed with, and its current state.
  Callers may hold on to the object; \<open>oid\<close> is what they hold.
\<close>

record 'w worksheet_object =
  oid :: nat
  ws_state :: "'w"

text \<open>
  \<open>_rawSheets\<close> is an object keyed by sheet id. Its entries are listed in the order
  JavaScript enumerates integer keys, ascending. \<open>allocated\<close> counts the worksheet
  objects this document has constructed, and is the identity of the next one.
\<close>

record 'w GoogleSpreadsheet =
  spreadsheetId :: string
  auth :: GoogleSpreadsheetAuth
  rawSheets :: "(nat \<times> 'w worksheet_object) list"
  rawProperties :: "obj option"
  spreadsheetUrl :: "string option"
  doc_deleted :: bool
  allocated :: nat

definition GoogleSpreadsheet_new :: "string \<Rightarrow> GoogleSpreadsheetAuth \<Rightarrow> 'w GoogleSpreadsheet" where
  "GoogleSpreadsheet_new sid a =
     \<lparr>spreadsheetId = sid, auth = a, rawSheets = [], rawProperties = None,
      spreadsheetUrl = None, doc_deleted = False, allocated = 0\<rparr>"

definition sheetsApi ::
  "'w GoogleSpreadsheet \<Rightarrow> AxiosRequestConfig \<Rightarrow> AxiosError + 'r \<Rightarrow> net \<Rightarrow> (error + 'r) \<times> net" where
  "sheetsApi d = axios_request (auth d) (SHEETS_API_BASE_URL @ ''/'' @ spreadsheetId d)"

definition driveApi ::
  "'w GoogleSpreadsheet \<Rightarrow> AxiosRequestConfig \<Rightarrow> AxiosError + 'r \<Rightarrow> net \<Rightarrow> (error + 'r) \<times> net" where
  "driveApi d = axios_request (auth d) (DRIVE_API_BASE_URL @ ''/'' @ spreadsheetId d)"

text \<open>\<open>o[k] = v\<close> on an object with integer keys.\<close>

fun sheets_put :: "nat \<Rightarrow> 'a \<Rightarrow> (nat \<times> 'a) list \<Rightarrow> (nat \<times> 'a) list" where
  "sheets_put k v [] = [(k, v)]"
| "sheets_put k v ((k', v') # r) =
     (if k = k' then (k, v) # r
      else if k < k' then (k, v) # (k', v') # r
      else (k', v') # sheets_put k v r)"

text \<open>\<open>o[k].m(...)\<close>: a call that changes the state of the object under \<open>k\<close>.\<close>

definition sheets_modify ::
  "nat \<Rightarrow> ('w \<Rightarrow> 'w) \<Rightarrow> (nat \<times> 'w worksheet_object) list \<Rightarrow> (nat \<times> 'w worksheet_object) list" where
  "sheets_modify k f s = map (\<lambda>(k', x). if k' = k then (k', x\<lparr>ws_state := f (ws_state x)\<rparr>) else (k', x)) s"

definition ensureInfoLoaded :: "'w GoogleSpreadsheet \<Rightarrow> error + unit" where
  "ensureInfoLoaded d =
     (if rawProperties d = None
      then Inl (NotLoaded ''You must call `doc.loadInfo()` before accessing this property'')
      else Inr ())"

definition updateRawProperties :: "obj \<Rightarrow> 'w GoogleSpreadsheet \<Rightarrow> 'w GoogleSpreadsheet" where
  "updateRawProperties newProperties d = d\<lparr>rawProperties := Some newProperties\<rparr>"

definition updateOrCreateSheet ::
  "'w WorksheetClass \<Rightarrow> sheetInfo \<Rightarrow> 'w GoogleSpreadsheet \<Rightarrow> 'w GoogleSpreadsheet" where
  "updateOrCreateSheet W info d =
     (let p = properties info; dt = sheet_data info in
      if map_of (rawSheets d) (sheetId p) = None then
        d\<lparr>rawSheets := sheets_put (sheetId p)
                          \<lparr>oid = allocated d, ws_state = new_Worksheet W p dt\<rparr> (rawSheets d),
          allocated := Suc (allocated d)\<rparr>
      else
        d\<lparr>rawSheets := sheets_modify (sheetId p) (updateRawData W p dt) (rawSheets d)\<rparr>)"

text \<open>
  What \<open>_makeSingleUpdateRequest\<close>, \<open>_makeBatchUpdateRequest\<close> do with the echoed
  document state of a response: replace the properties, then upsert each sheet.
\<close>

definition applyUpdatedSpreadsheet ::
  "'w WorksheetClass \<Rightarrow> Spreadsheet \<Rightarrow> 'w GoogleSpreadsheet \<Rightarrow> 'w GoogleSpreadsheet" where
  "applyUpdatedSpreadsheet W us d =
     foldl (\<lambda>d' s. updateOrCreateSheet W s d') (updateRawProperties (res_properties us) d)
       (res_sheets us)"

definition makeSingleUpdateRequest ::
  "'w WorksheetClass \<Rightarrow> string \<Rightarrow> jsval \<Rightarrow> AxiosError + BatchUpdateResponse
     \<Rightarrow> 'w GoogleSpreadsheet \<times> net \<Rightarrow> (error + jsval) \<times> 'w GoogleSpreadsheet \<times> net" where
  "makeSingleUpdateRequest W requestType requestParams outcome = (\<lambda>(d, net).
     (case sheetsApi d
             \<lparr>baseURL = None, http_method = ''post'', url = '':batchUpdate'', params = [],
              body = JObj [(''requests'', JArr [JObj [(requestType, requestParams)]]),
                           (''includeSpreadsheetInResponse'', JBool True)],
              headers = [], responseType = None\<rparr> outcome net of
        (Inl e, net') \<Rightarrow> (Inl e, d, net')
      | (Inr resp, net') \<Rightarrow>
          (let d' = applyUpdatedSpreadsheet W (updatedSpreadsheet resp) d in
           (case replies resp of
              [] \<Rightarrow> (Inl (TypeError ''replies[0] is undefined''), d', net')
            | r # _ \<Rightarrow> (Inr (obj_get r requestType), d', net')))))"

subsection \<open>Properties\<close>

definition getProp :: "string \<Rightarrow> 'w GoogleSpreadsheet \<Rightarrow> error + jsval" where
  "getProp param d =
     (case ensureInfoLoaded d of
        Inl e \<Rightarrow> Inl e
      | Inr u \<Rightarrow>
          (case rawProperties d of
             None \<Rightarrow> Inl (TypeError ''_rawProperties is null'')
           | Some p \<Rightarrow> Inr (obj_get p param)))"

text \<open>A setter returns what it throws, and the document as it leaves it.\<close>

definition setProp ::
  "string \<Rightarrow> jsval \<Rightarrow> 'w GoogleSpreadsheet \<Rightarrow> (error + unit) \<times> 'w GoogleSpreadsheet" where
  "setProp param newVal d =
     (Inl (DirectAssignment ''Do not update directly - use `updateProperties()`''), d)"

definition get_title :: "'w GoogleSpreadsheet \<Rightarrow> error + jsval" where
  "get_title = getProp ''title''"

definition get_locale :: "'w GoogleSpreadsheet \<Rightarrow> error + jsval" where
  "get_locale = getProp ''locale''"

definition get_timeZone :: "'w GoogleSpreadsheet \<Rightarrow> error + jsval" where
  "get_timeZone = getProp ''timeZone''"

definition get_autoRecalc :: "'w GoogleSpreadsheet \<Rightarrow> error + jsval" where
  "get_autoRecalc = getProp ''autoRecalc''"

definition get_defaultFormat :: "'w GoogleSpreadsheet \<Rightarrow> error + jsval" where
  "get_defaultFormat = getProp ''defaultFormat''"

definition get_spreadsheetTheme :: "'w GoogleSpreadsheet \<Rightarrow> error + jsval" where
  "get_spreadsheetTheme = getProp ''spreadsheetTheme''"

definition get_iterativeCalculationSettings :: "'w GoogleSpreadsheet \<Rightarrow> error + jsval" where
  "get_iterativeCalculationSettings = getProp ''iterativeCalculationSettings''"

definition set_title ::
  "jsval \<Rightarrow> 'w GoogleSpreadsheet \<Rightarrow> (error + unit) \<times> 'w GoogleSpreadsheet" where
  "set_title = setProp ''title''"

definition set_locale ::
  "jsval \<Rightarrow> 'w GoogleSpreadsheet \<Rightarrow> (error + unit) \<times> 'w GoogleSpreadsheet" where
  "set_locale = setProp ''locale''"

definition set_timeZone ::
  "jsval \<Rightarrow> 'w GoogleSpreadsheet \<Rightarrow> (error + unit) \<times> 'w GoogleSpreadsheet" where
  "set_timeZone = setProp ''timeZone''"

definition set_autoRecalc ::
  "jsval \<Rightarrow> 'w GoogleSpreadsheet \<Rightarrow> (error + unit) \<times> 'w GoogleSpreadsheet" where
  "set_autoRecalc = setProp ''autoRecalc''"

definition set_defaultFormat ::
  "jsval \<Rightarrow> 'w GoogleSpreadsheet \<Rightarrow> (error + unit) \<times> 'w GoogleSpreadsheet" where
  "set_defaultFormat = setProp ''defaultFormat''"

definition set_spreadsheetTheme ::
  "jsval \<Rightarrow> 'w GoogleSpreadsheet \<Rightarrow> (error + unit) \<times> 'w GoogleSpreadsheet" where
  "set_spreadsheetTheme = setProp ''spreadsheetTheme''"

definition set_iterativeCalculationSettings ::
  "jsval \<Rightarrow> 'w GoogleSpreadsheet \<Rightarrow> (error + unit) \<times> 'w GoogleSpreadsheet" where
  "set_iterativeCalculationSettings = setProp ''iterativeCalculationSettings''"

text \<open>
  \<open>getFieldMask\<close> comes from \<open>utils\<close>, which is not among the sources at hand: it is
  a parameter.
\<close>

definition updateProperties ::
  "'w WorksheetClass \<Rightarrow> (obj \<Rightarrow> string) \<Rightarrow> obj \<Rightarrow> AxiosError + BatchUpdateResponse
     \<Rightarrow> 'w GoogleSpreadsheet \<times> net \<Rightarrow> (error + unit) \<times> 'w GoogleSpreadsheet \<times> net" where
  "updateProperties W getFieldMask props outcome s =
     (case makeSingleUpdateRequest W ''updateSpreadsheetProperties''
             (JObj [(''properties'', JObj props), (''fields'', JStr (getFieldMask props))])
             outcome s of
        (Inl e, s') \<Rightarrow> (Inl e, s')
      | (Inr reply, s') \<Rightarrow> (Inr (), s'))"

subsection \<open>Loading and resetting\<close>

definition loadInfo ::
  "'w WorksheetClass \<Rightarrow> bool \<Rightarrow> AxiosError + Spreadsheet
     \<Rightarrow> 'w GoogleSpreadsheet \<times> net \<Rightarrow> (error + unit) \<times> 'w GoogleSpreadsheet \<times> net" where
  "loadInfo W includeCells outcome = (\<lambda>(d, net).
     (case sheetsApi d
             \<lparr>baseURL = None, http_method = ''get'', url = ''/'',
              params = (if includeCells then [(''includeGridData'', JBool True)] else []),
              body = JUndefined, headers = [], responseType = None\<rparr> outcome net of
        (Inl e, net') \<Rightarrow> (Inl e, d, net')
      | (Inr res, net') \<Rightarrow>
          (Inr (),
           foldl (\<lambda>d' s. updateOrCreateSheet W s d')
             (d\<lparr>spreadsheetUrl := Some (res_spreadsheetUrl res),
                rawProperties := Some (res_properties res)\<rparr>)
             (res_sheets res),
           net')))"

definition resetLocalCache :: "'w GoogleSpreadsheet \<Rightarrow> 'w GoogleSpreadsheet" where
  "resetLocalCache d = d\<lparr>rawProperties := None, rawSheets := []\<rparr>"

subsection \<open>Worksheets\<close>

definition sheetCount :: "'w GoogleSpreadsheet \<Rightarrow> error + nat" where
  "sheetCount d =
     (case ensureInfoLoaded d of
        Inl e \<Rightarrow> Inl e
      | Inr u \<Rightarrow> Inr (length (map snd (rawSheets d))))"

definition sheetsById ::
  "'w GoogleSpreadsheet \<Rightarrow> error + (nat \<times> 'w worksheet_object) list" where
  "sheetsById d =
     (case ensureInfoLoaded d of
        Inl e \<Rightarrow> Inl e
      | Inr u \<Rightarrow> Inr (rawSheets d))"

text \<open>\<open>_.sortBy\<close> is a stable sort of the values, as \<open>sort_key\<close> is.\<close>

definition sheetsByIndex ::
  "'w WorksheetClass \<Rightarrow> 'w GoogleSpreadsheet \<Rightarrow> error + 'w worksheet_object list" where
  "sheetsByIndex W d =
     (case ensureInfoLoaded d of
        Inl e \<Rightarrow> Inl e
      | Inr u \<Rightarrow> Inr (sort_key (\<lambda>x. ws_index W (ws_state x)) (map snd (rawSheets d))))"

text \<open>\<open>_.keyBy\<close>: of two values with one key the later stays.\<close>

definition sheetsByTitle ::
  "'w WorksheetClass \<Rightarrow> 'w GoogleSpreadsheet \<Rightarrow> error + (string \<rightharpoonup> 'w worksheet_object)" where
  "sheetsByTitle W d =
     (case ensureInfoLoaded d of
        Inl e \<Rightarrow> Inl e
      | Inr u \<Rightarrow>
          Inr (foldl (\<lambda>m x. m(ws_title W (ws_state x) \<mapsto> x)) Map.empty (map snd (rawSheets d))))"

subsection \<open>Loading cells\<close>







subsection \<open>Exporting\<close>

definition EXPORT_CONFIG :: obj where
  "EXPORT_CONFIG =
     [(''html'', JObj []),
      (''zip'', JObj []),
      (''xlsx'', JObj []),
      (''ods'', JObj []),
      (''csv'', JObj [(''singleWorksheet'', JBool True)]),
      (''tsv'', JObj [(''singleWorksheet'', JBool True)]),
      (''pdf'', JObj [(''singleWorksheet'', JBool True)])]"

text \<open>
  \<open>EXPORT_CONFIG\<close> is an object literal, so \<open>EXPORT_CONFIG[k]\<close> also finds what every
  object inherits from \<open>Object.prototype\<close>. Those members are functions (an object
  for \<open>__proto__\<close>): truthy, and without a \<open>singleWorksheet\<close> member, as \<open>JObj []\<close> is.
\<close>

definition Object_prototype_members :: "string list" where
  "Object_prototype_members =
     [''constructor'', ''__proto__'', ''hasOwnProperty'', ''isPrototypeOf'',
      ''propertyIsEnumerable'', ''toLocaleString'', ''toString'', ''valueOf'',
      ''__defineGetter__'', ''__defineSetter__'', ''__lookupGetter__'', ''__lookupSetter__'']"

definition EXPORT_CONFIG_at :: "string \<Rightarrow> jsval" where
  "EXPORT_CONFIG_at fileType =
     (case map_of EXPORT_CONFIG fileType of
        Some v \<Rightarrow> v
      | None \<Rightarrow> if fileType \<in> set Object_prototype_members then JObj [] else JUndefined)"

text \<open>\<open>s.replace(pat, rep)\<close> with a string pattern: the first occurrence only.\<close>

fun replace_first :: "string \<Rightarrow> string \<Rightarrow> string \<Rightarrow> string" where
  "replace_first pat rep [] = (if pat = [] then rep else [])"
| "replace_first pat rep (c # cs) =
     (if take (length pat) (c # cs) = pat then rep @ drop (length pat) (c # cs)
      else c # replace_first pat rep cs)"

text \<open>
  \<open>worksheetId\<close> is \<open>None\<close> when \<open>undefined\<close>. \<open>'r\<close> is the payload, a buffer or a
  stream.
\<close>

definition downloadAs ::
  "string \<Rightarrow> nat option \<Rightarrow> bool \<Rightarrow> AxiosError + 'r
     \<Rightarrow> 'w GoogleSpreadsheet \<times> net \<Rightarrow> (error + 'r) \<times> net" where
  "downloadAs fileType worksheetId returnStreamInsteadOfBuffer outcome = (\<lambda>(d, net).
     (let worksheetId_truthy = (case worksheetId of None \<Rightarrow> False | Some n \<Rightarrow> n \<noteq> 0) in
      if \<not> truthy (EXPORT_CONFIG_at fileType) then
        (Inl (UnsupportedExportTarget (''unsupported export fileType - '' @ fileType)), net)
      else if truthy (js_get (EXPORT_CONFIG_at fileType) ''singleWorksheet'')
              \<and> worksheetId = None then
        (Inl (UnsupportedExportTarget
                (''Must specify worksheetId when exporting as '' @ fileType)), net)
      else if \<not> truthy (js_get (EXPORT_CONFIG_at fileType) ''singleWorksheet'')
              \<and> worksheetId_truthy then
        (Inl (UnsupportedExportTarget
                (''Cannot specify worksheetId when exporting as '' @ fileType)), net)
      else
        (let fileType' = (if fileType = ''html'' then ''zip'' else fileType) in
         case spreadsheetUrl d of
           None \<Rightarrow> (Inl (NotLoaded ''Cannot export sheet that is not fully loaded''), net)
         | Some u \<Rightarrow>
             if u = [] then
               (Inl (NotLoaded ''Cannot export sheet that is not fully loaded''), net)
             else
               sheetsApi d
                 \<lparr>baseURL = Some [], http_method = ''get'',
                  url = replace_first ''/edit'' ''/export'' u,
                  params = [(''id'', JStr (spreadsheetId d)), (''format'', JStr fileType')]
                           @ (case worksheetId of
                                None \<Rightarrow> []
                              | Some n \<Rightarrow> if n \<noteq> 0 then [(''gid'', JNum (int n))] else []),
                  body = JUndefined, headers = [],
                  responseType =
                    Some (if returnStreamInsteadOfBuffer then ''stream'' else ''arraybuffer'')\<rparr>
                 outcome net)))"

subsection \<open>Permissions\<close>

definition listPermissions ::
  "AxiosError + obj list \<Rightarrow> 'w GoogleSpreadsheet \<times> net \<Rightarrow> (error + obj list) \<times> net" where
  "listPermissions outcome = (\<lambda>(d, net).
     driveApi d
       \<lparr>baseURL = None, http_method = ''GET'', url = ''/permissions'',
        params = [(''fields'',
                   JStr ''permissions(id,type,emailAddress,domain,role,displayName,photoLink,deleted)'')],
        body = JUndefined, headers = [], responseType = None\<rparr>
       outcome net)"

text \<open>
  \<open>role\<close> is \<open>None\<close> for \<open>false\<close>. \<open>listed\<close> is the answer to the listing,
  \<open>outcome\<close> the answer to the request that follows it, when one does.
\<close>

definition setPublicAccessLevel ::
  "string option \<Rightarrow> AxiosError + obj list \<Rightarrow> AxiosError + jsval
     \<Rightarrow> 'w GoogleSpreadsheet \<times> net \<Rightarrow> (error + unit) \<times> net" where
  "setPublicAccessLevel role listed outcome = (\<lambda>(d, net).
     (case listPermissions listed (d, net) of
        (Inl e, net') \<Rightarrow> (Inl e, net')
      | (Inr permissions, net') \<Rightarrow>
          (let existingPublicPermission =
                 find (\<lambda>p. obj_get p ''type'' = JStr ''anyone'') permissions
           in case role of
                None \<Rightarrow>
                  (case existingPublicPermission of
                     None \<Rightarrow> (Inr (), net')
                   | Some p \<Rightarrow>
                       (case driveApi d
                               \<lparr>baseURL = None, http_method = ''DELETE'',
                                url = ''/permissions/'' @ js_to_string (obj_get p ''id''),
                                params = [], body = JUndefined, headers = [],
                                responseType = None\<rparr> outcome net' of
                          (Inl e, net'') \<Rightarrow> (Inl e, net'')
                        | (Inr r, net'') \<Rightarrow> (Inr (), net'')))
              | Some r \<Rightarrow>
                  (case driveApi d
                          \<lparr>baseURL = None, http_method = ''POST'', url = ''/permissions'',
                           params = [],
                           body = JObj [(''role'', JStr (if r = [] then ''viewer'' else r)),
                                        (''type'', JStr ''anyone'')],
                           headers = [], responseType = None\<rparr> outcome net' of
                     (Inl e, net'') \<Rightarrow> (Inl e, net'')
                   | (Inr shareReq, net'') \<Rightarrow> (Inr (), net'')))))"

subsection \<open>Creating a document\<close>

text \<open>
  The creation call goes through \<open>Axios.request\<close>, not through an instance: no
  interceptor runs, and a failure is the \<open>AxiosError\<close> as it came.
\<close>

definition createNewSpreadsheetDocument ::
  "'w WorksheetClass \<Rightarrow> GoogleSpreadsheetAuth \<Rightarrow> obj option \<Rightarrow> AxiosError + Spreadsheet
     \<Rightarrow> net \<Rightarrow> (error + 'w GoogleSpreadsheet) \<times> net" where
  "createNewSpreadsheetDocument W a props outcome net =
     (if apiKey a \<noteq> None then
        (Inl (InvalidCredential
                ''Cannot use api key only to create a new spreadsheet - it is only usable for read-only access of public docs''),
         net)
      else
        (case getRequestAuthConfig a of
           Inl e \<Rightarrow> (Inl e, net)
         | Inr authConfig \<Rightarrow>
             (let net' = net @
                    [\<lparr>baseURL = None, http_method = ''POST'', url = SHEETS_API_BASE_URL,
                      params = (case auth_params authConfig of None \<Rightarrow> [] | Some p \<Rightarrow> p),
                      body = JObj [(''properties'',
                                    (case props of None \<Rightarrow> JUndefined | Some p \<Rightarrow> JObj p))],
                      headers = (case auth_headers authConfig of None \<Rightarrow> [] | Some h \<Rightarrow> h),
                      responseType = None\<rparr>]
              in case outcome of
                   Inl err \<Rightarrow> (Inl (Transport err), net')
                 | Inr res \<Rightarrow>
                     (Inr (foldl (\<lambda>d' s. updateOrCreateSheet W s d')
                             ((GoogleSpreadsheet_new (res_spreadsheetId res) a)
                                \<lparr>spreadsheetUrl := Some (res_spreadsheetUrl res),
                                 rawProperties := Some (res_properties res)\<rparr>)
                             (res_sheets res)),
                      net'))))"

section \<open>Row view\<close>

text \<open>
  What a row reads of the worksheet it belongs to; the worksheet class is not among
  the sources at hand, and the three getters are taken as values.
\<close>

record RowWorksheet =
  a1SheetName :: string
  headerValues :: "string list"
  row_sheetId :: nat

text \<open>
  \<open>rawData\<close> is the row's backing array, a \<open>JArr\<close>; after a save it is
  \<open>values[0]\<close> of the answer, which is \<open>undefined\<close> when \<open>values\<close> is empty.
\<close>

record GoogleSpreadsheetRow =
  rowNumber :: nat
  rawData :: jsval
  deleted :: bool

definition GoogleSpreadsheetRow_new :: "nat \<Rightarrow> jsval \<Rightarrow> GoogleSpreadsheetRow" where
  "GoogleSpreadsheetRow_new n raw = \<lparr>rowNumber = n, rawData = raw, deleted = False\<rparr>"

text \<open>
  \<open>columnToLetter\<close> comes from \<open>utils\<close> and \<open>encodeURIComponent\<close> from the language:
  both are parameters.
\<close>

definition a1Range :: "(nat \<Rightarrow> string) \<Rightarrow> RowWorksheet \<Rightarrow> GoogleSpreadsheetRow \<Rightarrow> string" where
  "a1Range columnToLetter ws row =
     concat [a1SheetName ws, ''!'', ''A'' @ show_nat (rowNumber row), '':'',
             columnToLetter (length (headerValues ws)) @ show_nat (rowNumber row)]"

definition row_save ::
  "(nat \<Rightarrow> string) \<Rightarrow> (string \<Rightarrow> string) \<Rightarrow> RowWorksheet \<Rightarrow> bool \<Rightarrow> AxiosError + jsval list
     \<Rightarrow> GoogleSpreadsheetRow \<times> 'w GoogleSpreadsheet \<times> net
     \<Rightarrow> (error + unit) \<times> GoogleSpreadsheetRow \<times> 'w GoogleSpreadsheet \<times> net" where
  "row_save columnToLetter encodeURIComponent ws raw outcome = (\<lambda>(row, d, net).
     if deleted row then
       (Inl (RowDeleted ''This row has been deleted - call getRows again before making updates.''),
        row, d, net)
     else
       (case sheetsApi d
               \<lparr>baseURL = None, http_method = ''put'',
                url = ''/values/'' @ encodeURIComponent (a1Range columnToLetter ws row),
                params = [(''valueInputOption'', JStr (if raw then ''RAW'' else ''USER_ENTERED'')),
                          (''includeValuesInResponse'', JBool True)],
                body = JObj [(''range'', JStr (a1Range columnToLetter ws row)),
                             (''majorDimension'', JStr ''ROWS''),
                             (''values'', JArr [rawData row])],
                headers = [], responseType = None\<rparr> outcome net of
          (Inl e, net') \<Rightarrow> (Inl e, row, d, net')
        | (Inr values, net') \<Rightarrow>
            (Inr (),
             row\<lparr>rawData := (case values of [] \<Rightarrow> JUndefined | v # vs \<Rightarrow> v)\<rparr>, d, net')))"

text \<open>
  Modelled from the spec: \<open>GoogleSpreadsheetWorksheet._makeSingleUpdateRequest\<close>, of
  the class that is not among the sources at hand. By section 4.4 a structural
  operation of a worksheet is a single mutation request of its document, so the
  call is the document's \<open>_makeSingleUpdateRequest\<close>.
\<close>

definition row_delete ::
  "'w WorksheetClass \<Rightarrow> RowWorksheet \<Rightarrow> AxiosError + BatchUpdateResponse
     \<Rightarrow> GoogleSpreadsheetRow \<times> 'w GoogleSpreadsheet \<times> net
     \<Rightarrow> (error + jsval) \<times> GoogleSpreadsheetRow \<times> 'w GoogleSpreadsheet \<times> net" where
  "row_delete W ws outcome = (\<lambda>(row, d, net).
     if deleted row then
       (Inl (RowDeleted ''This row has been deleted - call getRows again before making updates.''),
        row, d, net)
     else
       (case makeSingleUpdateRequest W ''deleteRange''
               (JObj [(''range'',
                       JObj [(''sheetId'', JNum (int (row_sheetId ws))),
                             (''startRowIndex'', JNum (int (rowNumber row) - 1)),
                             (''endRowIndex'', JNum (int (rowNumber row)))]),
                      (''shiftDimension'', JStr ''ROWS'')])
               outcome (d, net) of
          (Inl e, d', net') \<Rightarrow> (Inl e, row, d', net')
        | (Inr result, d', net') \<Rightarrow> (Inr result, row\<lparr>deleted := True\<rparr>, d', net')))"

subsection \<open>Sequences of calls on a row\<close>

text \<open>
  A caller's calls on one row, each with the answer the wire will give it should
  the call reach the wire. A save resolves to \<open>undefined\<close>.
\<close>

datatype row_call =
    Save bool "AxiosError + jsval list"
  | Delete "AxiosError + BatchUpdateResponse"

definition row_step ::
  "(nat \<Rightarrow> string) \<Rightarrow> (string \<Rightarrow> string) \<Rightarrow> 'w WorksheetClass \<Rightarrow> RowWorksheet \<Rightarrow> row_call
     \<Rightarrow> GoogleSpreadsheetRow \<times> 'w GoogleSpreadsheet \<times> net
     \<Rightarrow> (error + jsval) \<times> GoogleSpreadsheetRow \<times> 'w GoogleSpreadsheet \<times> net" where
  "row_step columnToLetter encodeURIComponent W ws call s =
     (case call of
        Save raw outcome \<Rightarrow>
          (case row_save columnToLetter encodeURIComponent ws raw outcome s of
             (Inl e, s') \<Rightarrow> (Inl e, s')
           | (Inr u, s') \<Rightarrow> (Inr JUndefined, s'))
      | Delete outcome \<Rightarrow> row_delete W ws outcome s)"

fun row_run ::
  "(nat \<Rightarrow> string) \<Rightarrow> (string \<Rightarrow> string) \<Rightarrow> 'w WorksheetClass \<Rightarrow> RowWorksheet \<Rightarrow> row_call list
     \<Rightarrow> GoogleSpreadsheetRow \<times> 'w GoogleSpreadsheet \<times> net
     \<Rightarrow> (error + jsval) list \<times> GoogleSpreadsheetRow \<times> 'w GoogleSpreadsheet \<times> net" where
  "row_run columnToLetter encodeURIComponent W ws [] s = ([], s)"
| "row_run columnToLetter encodeURIComponent W ws (c # cs) s =
     (case row_step columnToLetter encodeURIComponent W ws c s of
        (r, s') \<Rightarrow>
          (case row_run columnToLetter encodeURIComponent W ws cs s' of
             (rs, s'') \<Rightarrow> (r # rs, s'')))"

subsection \<open>Echoed sheets that no longer change the cache\<close>

text \<open>
  An echoed sheet is settled in a document when its id is in \<open>_rawSheets\<close> and
  \<open>updateRawData\<close> with its properties and data leaves the worksheet under that id
  as it is.
\<close>

definition settled :: "'w WorksheetClass \<Rightarrow> sheetInfo \<Rightarrow> 'w GoogleSpreadsheet \<Rightarrow> bool" where
  "settled W info d \<longleftrightarrow>
     map_of (rawSheets d) (sheetId (properties info)) \<noteq> None
     \<and> (\<forall>x. (sheetId (properties info), x) \<in> set (rawSheets d) \<longrightarrow>
            updateRawData W (properties info) (sheet_data info) (ws_state x) = ws_state x)"

section \<open>Lemmas on the transport client\<close>

lemma axios_request_net:
  "getRequestAuthConfig a = Inr c \<Longrightarrow>
   \<exists>rq. snd (axios_request a base cfg outcome net) = net @ [rq]
      \<and> http_method rq = http_method cfg \<and> url rq = url cfg \<and> body rq = body cfg
      \<and> params rq = obj_spread (params cfg) (case auth_params c of None \<Rightarrow> [] | Some p \<Rightarrow> p)
      \<and> headers rq = obj_spread (headers cfg) (case auth_headers c of None \<Rightarrow> [] | Some h \<Rightarrow> h)"
  by (simp add: axios_request_def setAxiosRequestAuth_def)

lemma axios_request_fst:
  "getRequestAuthConfig a = Inr c \<Longrightarrow>
   fst (axios_request a base cfg outcome net) =
     (case outcome of Inl err \<Rightarrow> Inl (handleAxiosErrors a err) | Inr r \<Rightarrow> Inr r)"
  by (simp add: axios_request_def setAxiosRequestAuth_def)

lemma axios_request_rejected:
  "getRequestAuthConfig a = Inl e \<Longrightarrow> axios_request a base cfg outcome net = (Inl e, net)"
  by (simp add: axios_request_def setAxiosRequestAuth_def)

lemma resolve_apiKey:
  "apiKey a = Some k \<Longrightarrow>
   getRequestAuthConfig a = Inr \<lparr>auth_headers = None, auth_params = Some [(''key'', JStr k)]\<rparr>"
  by (simp add: getRequestAuthConfig_def)

lemma resolve_bearer_authorize:
  "apiKey a = None \<Longrightarrow> authorize a = Some (Inr (Some t)) \<Longrightarrow> t \<noteq> [] \<Longrightarrow>
   getRequestAuthConfig a =
     Inr \<lparr>auth_headers = Some [(''Authorization'', JStr (''Bearer '' @ t))], auth_params = None\<rparr>"
  by (simp add: getRequestAuthConfig_def)

lemma resolve_bearer_getAccessToken:
  "apiKey a = None \<Longrightarrow> authorize a = None \<Longrightarrow> getAccessToken a = Some (Inr (Some t)) \<Longrightarrow>
   t \<noteq> [] \<Longrightarrow>
   getRequestAuthConfig a =
     Inr \<lparr>auth_headers = Some [(''Authorization'', JStr (''Bearer '' @ t))], auth_params = None\<rparr>"
  by (simp add: getRequestAuthConfig_def)

lemma resolve_bearer_token:
  "apiKey a = None \<Longrightarrow> authorize a = None \<Longrightarrow> getAccessToken a = None \<Longrightarrow>
   token a = Some t \<Longrightarrow> t \<noteq> [] \<Longrightarrow>
   getRequestAuthConfig a =
     Inr \<lparr>auth_headers = Some [(''Authorization'', JStr (''Bearer '' @ t))], auth_params = None\<rparr>"
  by (simp add: getRequestAuthConfig_def)

lemma resolve_one_kind:
  assumes "getRequestAuthConfig a = Inr c"
  shows "(auth_headers c = None) \<noteq> (auth_params c = None)"
proof (cases "apiKey a")
  case (Some k)
  with assms show ?thesis by (auto simp: resolve_apiKey)
next
  case None
  with assms show ?thesis
    by (auto simp: getRequestAuthConfig_def split: option.splits sum.splits if_splits)
qed

lemma resolve_no_shape:
  "apiKey a = None \<Longrightarrow> authorize a = None \<Longrightarrow> getAccessToken a = None \<Longrightarrow> token a = None \<Longrightarrow>
   getAuthMode a = Inl (InvalidCredential ''Invalid auth'')
   \<and> getRequestAuthConfig a = Inl (InvalidCredential ''Invalid auth'')"
  by (simp add: getRequestAuthConfig_def getAuthMode_def)

lemma resolve_no_token:
  assumes "apiKey a = None"
    and "authorize a = Some (Inr u) \<or> authorize a = None \<and> getAccessToken a = Some (Inr u)"
    and "u = None \<or> u = Some []"
  shows "getRequestAuthConfig a = Inl (InvalidCredential ''Invalid auth'')"
  using assms by (auto simp: getRequestAuthConfig_def)

lemma create_rejects_apiKey:
  "apiKey a \<noteq> None \<Longrightarrow>
   createNewSpreadsheetDocument W a props outcome net =
     (Inl (InvalidCredential
        ''Cannot use api key only to create a new spreadsheet - it is only usable for read-only access of public docs''),
      net)"
  by (simp add: createNewSpreadsheetDocument_def)

lemma getRequestAuthConfig_not_RowDeleted: "getRequestAuthConfig a \<noteq> Inl (RowDeleted m)"
  by (auto simp: getRequestAuthConfig_def split: option.splits sum.splits)

lemma handleAxiosErrors_not_RowDeleted: "handleAxiosErrors a err \<noteq> RowDeleted m"
  by (auto simp: handleAxiosErrors_def Let_def)

lemma axios_request_not_RowDeleted:
  "fst (axios_request a base cfg outcome net) \<noteq> Inl (RowDeleted m)"
  using getRequestAuthConfig_not_RowDeleted[of a m] handleAxiosErrors_not_RowDeleted[of a _ m]
  by (auto simp: axios_request_def setAxiosRequestAuth_def split: sum.splits)



section \<open>Error normalisation\<close>

text \<open>
  Claim C4 does not hold as the specification words it. For a 404 whose body carries
  the structured error with code 404 and message \<open>Not found\<close>, the interceptor
  re-raises the error with the message \<open>Google API error - [404] Not found\<close>, which
  is not \<open>Service error - [404] Not found\<close>.
\<close>

theorem handleAxiosErrors_prefix_counterexample:
  "handleAxiosErrors
     \<lparr>apiKey = Some ''k'', authorize = None, getAccessToken = None, token = None\<rparr>
     \<lparr>message = ''Request failed with status code 404'',
      response = Some \<lparr>status = 404,
        data = JObj [(''error'', JObj [(''code'', JNum 404), (''message'', JStr ''Not found'')])]\<rparr>\<rparr>
   = Transport
     \<lparr>message = ''Google API error - [404] Not found'',
      response = Some \<lparr>status = 404,
        data = JObj [(''error'', JObj [(''code'', JNum 404), (''message'', JStr ''Not found'')])]\<rparr>\<rparr>
   \<and> ''Google API error - [404] Not found'' \<noteq> ''Service error - [404] Not found''"
  by (simp add: handleAxiosErrors_def response_data_def obj_get_def show_int_def
        show_nat.simps digit_def)

text \<open>
  Claim C4, as amended: for every transport failure whose response body carries a
  structured error object, the interceptor re-raises the same error with its message
  replaced by exactly \<open>Google API error - [<code>] <message>\<close>, where \<open><code>\<close> and
  \<open><message>\<close> are the two members of that object as a template literal renders
  them; the response stays as it was.
\<close>

theorem handleAxiosErrors_structured_error:
  assumes "js_get (response_data err) ''error'' = JObj e"
  shows "handleAxiosErrors a err =
     Transport (err\<lparr>message := ''Google API error - ['' @ js_to_string (obj_get e ''code'')
                                  @ ''] '' @ js_to_string (obj_get e ''message'')\<rparr>)"
  using assms by (cases "response_data err") (auto simp: handleAxiosErrors_def Let_def)

theorem handleAxiosErrors_structured_error_witness:
  "handleAxiosErrors
     \<lparr>apiKey = None, authorize = None, getAccessToken = None, token = Some ''t''\<rparr>
     \<lparr>message = ''Request failed with status code 400'',
      response = Some \<lparr>status = 400,
        data = JObj [(''error'', JObj [(''code'', JNum 400), (''message'', JStr ''Invalid range'')])]\<rparr>\<rparr>
   = Transport
     \<lparr>message = ''Google API error - [400] Invalid range'',
      response = Some \<lparr>status = 400,
        data = JObj [(''error'', JObj [(''code'', JNum 400), (''message'', JStr ''Invalid range'')])]\<rparr>\<rparr>"
  using handleAxiosErrors_structured_error
    [of "\<lparr>message = ''Request failed with status code 400'',
          response = Some \<lparr>status = 400,
            data = JObj [(''error'',
              JObj [(''code'', JNum 400), (''message'', JStr ''Invalid range'')])]\<rparr>\<rparr>"
        "[(''code'', JNum 400), (''message'', JStr ''Invalid range'')]"
        "\<lparr>apiKey = None, authorize = None, getAccessToken = None, token = Some ''t''\<rparr>"]
  by (simp add: response_data_def obj_get_def show_int_def show_nat.simps digit_def)

text \<open>
  Claim C5 does not hold as the specification words it. A 403 under an API key whose
  response has a body with a structured error, as the service's refusals have, is
  re-raised as the transport error with the normalised message: the check of the
  body comes first, and the error for a private document is not raised.
\<close>

theorem handleAxiosErrors_403_body_counterexample:
  "handleAxiosErrors
     \<lparr>apiKey = Some ''k'', authorize = None, getAccessToken = None, token = None\<rparr>
     \<lparr>message = ''Request failed with status code 403'',
      response = Some \<lparr>status = 403,
        data = JObj [(''error'',
          JObj [(''code'', JNum 403), (''message'', JStr ''The caller does not have permission'')])]\<rparr>\<rparr>
   = Transport
     \<lparr>message = ''Google API error - [403] The caller does not have permission'',
      response = Some \<lparr>status = 403,
        data = JObj [(''error'',
          JObj [(''code'', JNum 403), (''message'', JStr ''The caller does not have permission'')])]\<rparr>\<rparr>"
  by (simp add: handleAxiosErrors_def response_data_def obj_get_def show_int_def
        show_nat.simps digit_def)

text \<open>
  Claim C5, as amended: for every transport failure with status 403 whose response
  has no body (none, or a falsy one), while the credential has an API key, the
  interceptor raises the error \<open>Sheet is private. Use authentication or make public.\<close>
  with its pointer to the documentation; a failure whose body has no structured
  error, and that is not such a 403, is re-raised as it came.
\<close>

theorem handleAxiosErrors_private_or_raw:
  "(\<not> truthy (response_data err) \<and> response_status err = Some 403 \<and> apiKey a \<noteq> None \<longrightarrow>
      handleAxiosErrors a err = AccessDeniedPrivateDocument
        ''Sheet is private. Use authentication or make public. (see https://github.com/theoephraim/node-google-spreadsheet#a-note-on-authentication for details)'')
   \<and> (\<not> truthy (js_get (response_data err) ''error'')
        \<and> (truthy (response_data err) \<or> response_status err \<noteq> Some 403 \<or> apiKey a = None) \<longrightarrow>
      handleAxiosErrors a err = Transport err)"
  by (auto simp: handleAxiosErrors_def Let_def)

theorem handleAxiosErrors_private_or_raw_witness:
  "handleAxiosErrors
     \<lparr>apiKey = Some ''k'', authorize = None, getAccessToken = None, token = None\<rparr>
     \<lparr>message = ''Request failed with status code 403'',
      response = Some \<lparr>status = 403, data = JStr []\<rparr>\<rparr>
   = AccessDeniedPrivateDocument
       ''Sheet is private. Use authentication or make public. (see https://github.com/theoephraim/node-google-spreadsheet#a-note-on-authentication for details)''
   \<and> handleAxiosErrors
     \<lparr>apiKey = Some ''k'', authorize = None, getAccessToken = None, token = None\<rparr>
     \<lparr>message = ''Network Error'', response = None\<rparr>
   = Transport \<lparr>message = ''Network Error'', response = None\<rparr>"
  using handleAxiosErrors_private_or_raw
    [of "\<lparr>message = ''Request failed with status code 403'',
          response = Some \<lparr>status = 403, data = JStr []\<rparr>\<rparr>"
        "\<lparr>apiKey = Some ''k'', authorize = None, getAccessToken = None, token = None\<rparr>"]
    handleAxiosErrors_private_or_raw
    [of "\<lparr>message = ''Network Error'', response = None\<rparr>"
        "\<lparr>apiKey = Some ''k'', authorize = None, getAccessToken = None, token = None\<rparr>"]
  by (simp add: response_data_def response_status_def)

section \<open>Credentials\<close>

text \<open>
  Claim C7: resolving a credential gives exactly one kind of directive: the query
  parameter \<open>key\<close> for a credential with an API key, and the header
  \<open>Authorization: Bearer <token>\<close> for each of the three other shapes when it
  yields a token; it raises \<open>Invalid auth\<close> when no shape matches or when a refresh
  yields no token or an empty one. Creating a document with a credential that has an
  API key fails with an invalid-credential error and puts nothing on the wire.
\<close>

theorem credential_directive_and_creation:
  "(apiKey a = Some k \<longrightarrow>
      getRequestAuthConfig a = Inr \<lparr>auth_headers = None, auth_params = Some [(''key'', JStr k)]\<rparr>)
   \<and> (apiKey a = None \<and> t \<noteq> []
        \<and> (authorize a = Some (Inr (Some t))
           \<or> authorize a = None \<and> getAccessToken a = Some (Inr (Some t))
           \<or> authorize a = None \<and> getAccessToken a = None \<and> token a = Some t) \<longrightarrow>
      getRequestAuthConfig a =
        Inr \<lparr>auth_headers = Some [(''Authorization'', JStr (''Bearer '' @ t))], auth_params = None\<rparr>)
   \<and> (getRequestAuthConfig a = Inr c \<longrightarrow> (auth_headers c = None) \<noteq> (auth_params c = None))
   \<and> (apiKey a = None \<and> authorize a = None \<and> getAccessToken a = None \<and> token a = None \<longrightarrow>
      getAuthMode a = Inl (InvalidCredential ''Invalid auth'')
      \<and> getRequestAuthConfig a = Inl (InvalidCredential ''Invalid auth''))
   \<and> (apiKey a = None
        \<and> (authorize a = Some (Inr u) \<or> authorize a = None \<and> getAccessToken a = Some (Inr u))
        \<and> (u = None \<or> u = Some []) \<longrightarrow>
      getRequestAuthConfig a = Inl (InvalidCredential ''Invalid auth''))
   \<and> (apiKey a \<noteq> None \<longrightarrow>
      createNewSpreadsheetDocument W a props outcome net =
        (Inl (InvalidCredential
           ''Cannot use api key only to create a new spreadsheet - it is only usable for read-only access of public docs''),
         net))"
proof (intro conjI impI)
  assume "apiKey a = Some k"
  then show "getRequestAuthConfig a =
      Inr \<lparr>auth_headers = None, auth_params = Some [(''key'', JStr k)]\<rparr>"
    by (rule resolve_apiKey)
next
  assume "apiKey a = None \<and> t \<noteq> []
        \<and> (authorize a = Some (Inr (Some t))
           \<or> authorize a = None \<and> getAccessToken a = Some (Inr (Some t))
           \<or> authorize a = None \<and> getAccessToken a = None \<and> token a = Some t)"
  then show "getRequestAuthConfig a =
        Inr \<lparr>auth_headers = Some [(''Authorization'', JStr (''Bearer '' @ t))], auth_params = None\<rparr>"
    using resolve_bearer_authorize[of a t] resolve_bearer_getAccessToken[of a t]
      resolve_bearer_token[of a t] by blast
next
  assume "getRequestAuthConfig a = Inr c"
  then show "(auth_headers c = None) \<noteq> (auth_params c = None)"
    by (rule resolve_one_kind)
next
  assume "apiKey a = None \<and> authorize a = None \<and> getAccessToken a = None \<and> token a = None"
  then show "getAuthMode a = Inl (InvalidCredential ''Invalid auth'')"
    and "getRequestAuthConfig a = Inl (InvalidCredential ''Invalid auth'')"
    using resolve_no_shape[of a] by blast+
next
  assume "apiKey a = None
        \<and> (authorize a = Some (Inr u) \<or> authorize a = None \<and> getAccessToken a = Some (Inr u))
        \<and> (u = None \<or> u = Some [])"
  then show "getRequestAuthConfig a = Inl (InvalidCredential ''Invalid auth'')"
    using resolve_no_token[of a u] by blast
next
  assume "apiKey a \<noteq> None"
  then show "createNewSpreadsheetDocument W a props outcome net =
        (Inl (InvalidCredential
           ''Cannot use api key only to create a new spreadsheet - it is only usable for read-only access of public docs''),
         net)"
    by (rule create_rejects_apiKey)
qed

theorem credential_directive_and_creation_witness:
  "getRequestAuthConfig
     \<lparr>apiKey = Some ''k'', authorize = None, getAccessToken = None, token = None\<rparr>
   = Inr \<lparr>auth_headers = None, auth_params = Some [(''key'', JStr ''k'')]\<rparr>
   \<and> getRequestAuthConfig
     \<lparr>apiKey = None, authorize = Some (Inr (Some ''jwt'')),
      getAccessToken = Some (Inr (Some ''other'')), token = None\<rparr>
   = Inr \<lparr>auth_headers = Some [(''Authorization'', JStr ''Bearer jwt'')], auth_params = None\<rparr>
   \<and> getRequestAuthConfig
     \<lparr>apiKey = None, authorize = None, getAccessToken = None, token = None\<rparr>
   = Inl (InvalidCredential ''Invalid auth'')
   \<and> getRequestAuthConfig
     \<lparr>apiKey = None, authorize = None, getAccessToken = Some (Inr None), token = None\<rparr>
   = Inl (InvalidCredential ''Invalid auth'')
   \<and> createNewSpreadsheetDocument
     \<lparr>new_Worksheet = (\<lambda>p dt. ()), updateRawData = (\<lambda>p dt w. ()),
      ws_title = (\<lambda>w. []), ws_index = (\<lambda>w. 0)\<rparr>
     \<lparr>apiKey = Some ''k'', authorize = None, getAccessToken = None, token = None\<rparr>
     None (Inl \<lparr>message = ''Network Error'', response = None\<rparr>) []
   = (Inl (InvalidCredential
        ''Cannot use api key only to create a new spreadsheet - it is only usable for read-only access of public docs''),
      [])"
  using credential_directive_and_creation
    [where a = "\<lparr>apiKey = Some ''k'', authorize = None, getAccessToken = None, token = None\<rparr>"
       and k = "''k''"
       and c = "\<lparr>auth_headers = None, auth_params = Some [(''key'', JStr ''k'')]\<rparr>"
       and W = "\<lparr>new_Worksheet = (\<lambda>p dt. ()), updateRawData = (\<lambda>p dt w. ()),
                 ws_title = (\<lambda>w. []), ws_index = (\<lambda>w. 0)\<rparr>"
       and props = None and outcome = "Inl \<lparr>message = ''Network Error'', response = None\<rparr>"
       and net = "[]"]
    credential_directive_and_creation
    [where a = "\<lparr>apiKey = None, authorize = Some (Inr (Some ''jwt'')),
                 getAccessToken = Some (Inr (Some ''other'')), token = None\<rparr>"
       and t = "''jwt''"]
    credential_directive_and_creation
    [where a = "\<lparr>apiKey = None, authorize = None, getAccessToken = None, token = None\<rparr>"]
    credential_directive_and_creation
    [where a = "\<lparr>apiKey = None, authorize = None, getAccessToken = Some (Inr None),
                 token = None\<rparr>"
       and u = None]
  by simp

section \<open>Exporting\<close>

lemma EXPORT_CONFIG_single:
  "ft \<in> {''csv'', ''tsv'', ''pdf''} \<Longrightarrow>
   EXPORT_CONFIG_at ft = JObj [(''singleWorksheet'', JBool True)]"
  by (auto simp: EXPORT_CONFIG_at_def EXPORT_CONFIG_def)

lemma EXPORT_CONFIG_whole:
  "ft \<in> {''html'', ''zip'', ''xlsx'', ''ods''} \<Longrightarrow> EXPORT_CONFIG_at ft = JObj []"
  by (auto simp: EXPORT_CONFIG_at_def EXPORT_CONFIG_def)

lemma EXPORT_CONFIG_unknown:
  "ft \<notin> fst ` set EXPORT_CONFIG \<Longrightarrow> ft \<notin> set Object_prototype_members \<Longrightarrow>
   EXPORT_CONFIG_at ft = JUndefined"
  by (simp add: EXPORT_CONFIG_at_def map_of_eq_None_iff[THEN iffD2])

lemma downloadAs_single_without_id:
  "ft \<in> {''csv'', ''tsv'', ''pdf''} \<Longrightarrow>
   downloadAs ft None rs outcome (d, net) =
     (Inl (UnsupportedExportTarget (''Must specify worksheetId when exporting as '' @ ft)), net)"
  by (simp add: downloadAs_def EXPORT_CONFIG_single obj_get_def del: insert_iff)

lemma downloadAs_single_with_id:
  "ft \<in> {''csv'', ''tsv'', ''pdf''} \<Longrightarrow> spreadsheetUrl d = Some u \<Longrightarrow> u \<noteq> [] \<Longrightarrow>
   getRequestAuthConfig (auth d) = Inr c \<Longrightarrow>
   fst (downloadAs ft (Some n) rs (Inr payload) (d, net)) = Inr payload"
  by (simp add: downloadAs_def EXPORT_CONFIG_single obj_get_def sheetsApi_def axios_request_fst
        del: insert_iff)

lemma downloadAs_whole_with_id:
  "ft \<in> {''html'', ''zip'', ''xlsx'', ''ods''} \<Longrightarrow> n \<noteq> 0 \<Longrightarrow>
   downloadAs ft (Some n) rs outcome (d, net) =
     (Inl (UnsupportedExportTarget (''Cannot specify worksheetId when exporting as '' @ ft)), net)"
  by (simp add: downloadAs_def EXPORT_CONFIG_whole obj_get_def del: insert_iff)

lemma downloadAs_unknown:
  "ft \<notin> fst ` set EXPORT_CONFIG \<Longrightarrow> ft \<notin> set Object_prototype_members \<Longrightarrow>
   downloadAs ft wid rs outcome (d, net) =
     (Inl (UnsupportedExportTarget (''unsupported export fileType - '' @ ft)), net)"
  by (simp add: downloadAs_def EXPORT_CONFIG_unknown)

text \<open>
  Claim C6 does not hold as the specification words it. \<open>html\<close> is not a
  single-worksheet format: on a loaded document, exporting \<open>html\<close> with no worksheet
  id passes the checks and returns the payload the wire answers with.
\<close>

theorem downloadAs_html_counterexample:
  "fst (downloadAs ''html'' None False (Inr ''PK'')
     ((GoogleSpreadsheet_new ''doc1''
         \<lparr>apiKey = Some ''k'', authorize = None, getAccessToken = None, token = None\<rparr>
        :: unit GoogleSpreadsheet)
        \<lparr>spreadsheetUrl := Some ''https://docs.google.com/spreadsheets/d/doc1/edit''\<rparr>, []))
   = Inr ''PK''"
  by (simp add: downloadAs_def EXPORT_CONFIG_at_def EXPORT_CONFIG_def obj_get_def
        GoogleSpreadsheet_new_def sheetsApi_def axios_request_def setAxiosRequestAuth_def
        getRequestAuthConfig_def)

text \<open>
  Claim C6, as amended: the three single-worksheet formats \<open>csv\<close>, \<open>tsv\<close>, \<open>pdf\<close>
  fail with an unsupported-target error when no worksheet id is given, and with one,
  on a loaded document whose credential resolves, they return the payload; the four
  whole-document formats \<open>html\<close>, \<open>zip\<close>, \<open>xlsx\<close>, \<open>ods\<close> fail with an
  unsupported-target error when a worksheet id other than 0 is given; a format that
  is none of the seven, and not the name of a member every object inherits, fails
  with an unsupported-target error. No failure of these puts anything on the wire.
\<close>

theorem downloadAs_targets:
  "(ft \<in> {''csv'', ''tsv'', ''pdf''} \<longrightarrow>
      downloadAs ft None rs outcome (d, net) =
        (Inl (UnsupportedExportTarget (''Must specify worksheetId when exporting as '' @ ft)), net))
   \<and> (ft \<in> {''csv'', ''tsv'', ''pdf''} \<and> spreadsheetUrl d = Some u \<and> u \<noteq> []
        \<and> getRequestAuthConfig (auth d) = Inr c \<longrightarrow>
      fst (downloadAs ft (Some n) rs (Inr payload) (d, net)) = Inr payload)
   \<and> (ft \<in> {''html'', ''zip'', ''xlsx'', ''ods''} \<and> n \<noteq> 0 \<longrightarrow>
      downloadAs ft (Some n) rs outcome (d, net) =
        (Inl (UnsupportedExportTarget (''Cannot specify worksheetId when exporting as '' @ ft)), net))
   \<and> (ft \<notin> fst ` set EXPORT_CONFIG \<and> ft \<notin> set Object_prototype_members \<longrightarrow>
      downloadAs ft wid rs outcome (d, net) =
        (Inl (UnsupportedExportTarget (''unsupported export fileType - '' @ ft)), net))"
proof (intro conjI impI)
  assume "ft \<in> {''csv'', ''tsv'', ''pdf''}"
  then show "downloadAs ft None rs outcome (d, net) =
        (Inl (UnsupportedExportTarget (''Must specify worksheetId when exporting as '' @ ft)), net)"
    by (rule downloadAs_single_without_id)
next
  assume h: "ft \<in> {''csv'', ''tsv'', ''pdf''} \<and> spreadsheetUrl d = Some u \<and> u \<noteq> []
        \<and> getRequestAuthConfig (auth d) = Inr c"
  show "fst (downloadAs ft (Some n) rs (Inr payload) (d, net)) = Inr payload"
    by (rule downloadAs_single_with_id
          [OF h[THEN conjunct1] h[THEN conjunct2, THEN conjunct1]
              h[THEN conjunct2, THEN conjunct2, THEN conjunct1]
              h[THEN conjunct2, THEN conjunct2, THEN conjunct2]])
next
  assume h: "ft \<in> {''html'', ''zip'', ''xlsx'', ''ods''} \<and> n \<noteq> 0"
  show "downloadAs ft (Some n) rs outcome (d, net) =
        (Inl (UnsupportedExportTarget (''Cannot specify worksheetId when exporting as '' @ ft)), net)"
    by (rule downloadAs_whole_with_id[OF h[THEN conjunct1] h[THEN conjunct2]])
next
  assume h: "ft \<notin> fst ` set EXPORT_CONFIG \<and> ft \<notin> set Object_prototype_members"
  show "downloadAs ft wid rs outcome (d, net) =
        (Inl (UnsupportedExportTarget (''unsupported export fileType - '' @ ft)), net)"
    by (rule downloadAs_unknown[OF h[THEN conjunct1] h[THEN conjunct2]])
qed

theorem downloadAs_targets_witness:
  "downloadAs ''csv'' None False (Inr ''a,b'')
     ((GoogleSpreadsheet_new ''doc1''
         \<lparr>apiKey = Some ''k'', authorize = None, getAccessToken = None, token = None\<rparr>
        :: unit GoogleSpreadsheet)
        \<lparr>spreadsheetUrl := Some ''https://docs.google.com/spreadsheets/d/doc1/edit''\<rparr>, [])
   = (Inl (UnsupportedExportTarget ''Must specify worksheetId when exporting as csv''), [])
   \<and> fst (downloadAs ''csv'' (Some 3) False (Inr ''a,b'')
     ((GoogleSpreadsheet_new ''doc1''
         \<lparr>apiKey = Some ''k'', authorize = None, getAccessToken = None, token = None\<rparr>
        :: unit GoogleSpreadsheet)
        \<lparr>spreadsheetUrl := Some ''https://docs.google.com/spreadsheets/d/doc1/edit''\<rparr>, []))
   = Inr ''a,b''
   \<and> downloadAs ''xlsx'' (Some 3) False (Inr ''a,b'')
     ((GoogleSpreadsheet_new ''doc1''
         \<lparr>apiKey = Some ''k'', authorize = None, getAccessToken = None, token = None\<rparr>
        :: unit GoogleSpreadsheet)
        \<lparr>spreadsheetUrl := Some ''https://docs.google.com/spreadsheets/d/doc1/edit''\<rparr>, [])
   = (Inl (UnsupportedExportTarget ''Cannot specify worksheetId when exporting as xlsx''), [])
   \<and> downloadAs ''docx'' (Some 3) False (Inr ''a,b'')
     ((GoogleSpreadsheet_new ''doc1''
         \<lparr>apiKey = Some ''k'', authorize = None, getAccessToken = None, token = None\<rparr>
        :: unit GoogleSpreadsheet)
        \<lparr>spreadsheetUrl := Some ''https://docs.google.com/spreadsheets/d/doc1/edit''\<rparr>, [])
   = (Inl (UnsupportedExportTarget ''unsupported export fileType - docx''), [])"
  using downloadAs_targets
    [where ft = "''csv''" and rs = False and outcome = "Inr ''a,b''" and payload = "''a,b''"
       and n = 3 and net = "[]"
       and u = "''https://docs.google.com/spreadsheets/d/doc1/edit''"
       and c = "\<lparr>auth_headers = None, auth_params = Some [(''key'', JStr ''k'')]\<rparr>"
       and d = "(GoogleSpreadsheet_new ''doc1''
         \<lparr>apiKey = Some ''k'', authorize = None, getAccessToken = None, token = None\<rparr>
        :: unit GoogleSpreadsheet)
        \<lparr>spreadsheetUrl := Some ''https://docs.google.com/spreadsheets/d/doc1/edit''\<rparr>"]
    downloadAs_targets
    [where ft = "''xlsx''" and rs = False and outcome = "Inr ''a,b''"
       and n = 3 and net = "[]"
       and d = "(GoogleSpreadsheet_new ''doc1''
         \<lparr>apiKey = Some ''k'', authorize = None, getAccessToken = None, token = None\<rparr>
        :: unit GoogleSpreadsheet)
        \<lparr>spreadsheetUrl := Some ''https://docs.google.com/spreadsheets/d/doc1/edit''\<rparr>"]
    downloadAs_targets
    [where ft = "''docx''" and rs = False and outcome = "Inr ''a,b''"
       and wid = "Some 3" and net = "[]"
       and d = "(GoogleSpreadsheet_new ''doc1''
         \<lparr>apiKey = Some ''k'', authorize = None, getAccessToken = None, token = None\<rparr>
        :: unit GoogleSpreadsheet)
        \<lparr>spreadsheetUrl := Some ''https://docs.google.com/spreadsheets/d/doc1/edit''\<rparr>"]
  by (simp add: GoogleSpreadsheet_new_def getRequestAuthConfig_def EXPORT_CONFIG_def
        Object_prototype_members_def)

section \<open>Loading cells\<close>















section \<open>Public access\<close>

lemma listPermissions_Inr:
  assumes "fst (listPermissions listed (d, net)) = Inr permissions"
  shows "listed = Inr permissions \<and> (\<exists>c. getRequestAuthConfig (auth d) = Inr c)"
proof (cases "getRequestAuthConfig (auth d)")
  case (Inl e)
  with assms show ?thesis
    by (simp add: listPermissions_def driveApi_def axios_request_rejected)
next
  case (Inr c)
  with assms show ?thesis
    by (cases listed) (simp_all add: listPermissions_def driveApi_def axios_request_fst)
qed

lemma listPermissions_net:
  assumes "getRequestAuthConfig (auth d) = Inr c"
  shows "\<exists>rq. snd (listPermissions listed (d, net)) = net @ [rq]
            \<and> http_method rq = ''GET'' \<and> url rq = ''/permissions''"
  using axios_request_net[OF assms, of _
     "\<lparr>baseURL = None, http_method = ''GET'', url = ''/permissions'',
        params = [(''fields'',
                   JStr ''permissions(id,type,emailAddress,domain,role,displayName,photoLink,deleted)'')],
        body = JUndefined, headers = [], responseType = None\<rparr>" listed net]
  by (auto simp: listPermissions_def driveApi_def)

lemma setPublicAccessLevel_absent:
  assumes "fst (listPermissions listed (d, net)) = Inr permissions"
    "find (\<lambda>p. obj_get p ''type'' = JStr ''anyone'') permissions = None"
  shows "\<exists>rq. setPublicAccessLevel None listed outcome (d, net) = (Inr (), net @ [rq])
           \<and> http_method rq = ''GET'' \<and> url rq = ''/permissions''"
proof -
  obtain c where c: "getRequestAuthConfig (auth d) = Inr c"
    using listPermissions_Inr[OF assms(1)] by blast
  obtain rq where rq: "snd (listPermissions listed (d, net)) = net @ [rq]"
      "http_method rq = ''GET''" "url rq = ''/permissions''"
    using listPermissions_net[OF c] by blast
  have "listPermissions listed (d, net) = (Inr permissions, net @ [rq])"
    using assms(1) rq(1) by (simp add: prod_eq_iff)
  then have "setPublicAccessLevel None listed outcome (d, net) = (Inr (), net @ [rq])"
    using assms(2) by (simp add: setPublicAccessLevel_def)
  with rq show ?thesis by blast
qed

lemma setPublicAccessLevel_present:
  assumes "fst (listPermissions listed (d, net)) = Inr permissions"
    "find (\<lambda>p. obj_get p ''type'' = JStr ''anyone'') permissions = Some p"
  shows "\<exists>rq1 rq2. snd (setPublicAccessLevel None listed outcome (d, net)) = net @ [rq1, rq2]
           \<and> http_method rq1 = ''GET'' \<and> url rq1 = ''/permissions''
           \<and> http_method rq2 = ''DELETE''
           \<and> url rq2 = ''/permissions/'' @ js_to_string (obj_get p ''id'')"
proof -
  obtain c where c: "getRequestAuthConfig (auth d) = Inr c"
    using listPermissions_Inr[OF assms(1)] by blast
  obtain rq1 where rq1: "snd (listPermissions listed (d, net)) = net @ [rq1]"
      "http_method rq1 = ''GET''" "url rq1 = ''/permissions''"
    using listPermissions_net[OF c] by blast
  let ?cfg = "\<lparr>baseURL = None, http_method = ''DELETE'',
       url = ''/permissions/'' @ js_to_string (obj_get p ''id''),
       params = [], body = JUndefined, headers = [], responseType = None\<rparr>"
  obtain rq2 where rq2: "snd (driveApi d ?cfg outcome (net @ [rq1])) = (net @ [rq1]) @ [rq2]"
      "http_method rq2 = http_method ?cfg" "url rq2 = url ?cfg"
    using axios_request_net[OF c, of _ ?cfg outcome "net @ [rq1]"]
    unfolding driveApi_def by blast
  have "listPermissions listed (d, net) = (Inr permissions, net @ [rq1])"
    using assms(1) rq1(1) by (simp add: prod_eq_iff)
  then have "snd (setPublicAccessLevel None listed outcome (d, net)) =
             snd (driveApi d ?cfg outcome (net @ [rq1]))"
    using assms(2) by (simp add: setPublicAccessLevel_def split: prod.splits sum.splits)
  with rq1 rq2 show ?thesis by simp
qed

text \<open>
  Claim C9: \<open>setPublicAccessLevel(false)\<close>, once the permissions are listed. When no
  listed permission has the type \<open>anyone\<close>, the call returns without error and the
  listing is the only request it sends: no delete request. When one has, the call
  sends, after the listing, exactly one request, a \<open>DELETE\<close> of
  \<open>/permissions/<id>\<close> with the id of the first such permission.
\<close>

theorem setPublicAccessLevel_false:
  "(fst (listPermissions listed (d, net)) = Inr permissions
      \<and> find (\<lambda>p. obj_get p ''type'' = JStr ''anyone'') permissions = None \<longrightarrow>
      (\<exists>rq. setPublicAccessLevel None listed outcome (d, net) = (Inr (), net @ [rq])
           \<and> http_method rq = ''GET'' \<and> url rq = ''/permissions''))
   \<and> (fst (listPermissions listed (d, net)) = Inr permissions
      \<and> find (\<lambda>p. obj_get p ''type'' = JStr ''anyone'') permissions = Some p \<longrightarrow>
      (\<exists>rq1 rq2. snd (setPublicAccessLevel None listed outcome (d, net)) = net @ [rq1, rq2]
           \<and> http_method rq1 = ''GET'' \<and> url rq1 = ''/permissions''
           \<and> http_method rq2 = ''DELETE''
           \<and> url rq2 = ''/permissions/'' @ js_to_string (obj_get p ''id'')))"
proof (intro conjI impI)
  assume h: "fst (listPermissions listed (d, net)) = Inr permissions
      \<and> find (\<lambda>p. obj_get p ''type'' = JStr ''anyone'') permissions = None"
  show "\<exists>rq. setPublicAccessLevel None listed outcome (d, net) = (Inr (), net @ [rq])
           \<and> http_method rq = ''GET'' \<and> url rq = ''/permissions''"
    by (rule setPublicAccessLevel_absent[OF h[THEN conjunct1] h[THEN conjunct2]])
next
  assume h: "fst (listPermissions listed (d, net)) = Inr permissions
      \<and> find (\<lambda>p. obj_get p ''type'' = JStr ''anyone'') permissions = Some p"
  show "\<exists>rq1 rq2. snd (setPublicAccessLevel None listed outcome (d, net)) = net @ [rq1, rq2]
           \<and> http_method rq1 = ''GET'' \<and> url rq1 = ''/permissions''
           \<and> http_method rq2 = ''DELETE''
           \<and> url rq2 = ''/permissions/'' @ js_to_string (obj_get p ''id'')"
    by (rule setPublicAccessLevel_present[OF h[THEN conjunct1] h[THEN conjunct2]])
qed

theorem setPublicAccessLevel_false_witness:
  "(case setPublicAccessLevel None
          (Inr [[(''id'', JStr ''u1''), (''type'', JStr ''user''), (''role'', JStr ''writer'')]])
          (Inr JUndefined)
          (GoogleSpreadsheet_new ''doc1''
             \<lparr>apiKey = None, authorize = None, getAccessToken = None, token = Some ''t''\<rparr>
             :: unit GoogleSpreadsheet, []) of
      (r, net) \<Rightarrow> (r, map (\<lambda>rq. (http_method rq, url rq)) net))
   = (Inr (), [(''GET'', ''/permissions'')])
   \<and> (case setPublicAccessLevel None
          (Inr [[(''id'', JStr ''u1''), (''type'', JStr ''user''), (''role'', JStr ''writer'')],
                [(''id'', JStr ''anyoneWithLink''), (''type'', JStr ''anyone''),
                 (''role'', JStr ''reader'')]])
          (Inr JUndefined)
          (GoogleSpreadsheet_new ''doc1''
             \<lparr>apiKey = None, authorize = None, getAccessToken = None, token = Some ''t''\<rparr>
             :: unit GoogleSpreadsheet, []) of
      (r, net) \<Rightarrow> (r, map (\<lambda>rq. (http_method rq, url rq)) net))
   = (Inr (), [(''GET'', ''/permissions''), (''DELETE'', ''/permissions/anyoneWithLink'')])"
  using setPublicAccessLevel_false
    [where listed = "Inr [[(''id'', JStr ''u1''), (''type'', JStr ''user''),
                           (''role'', JStr ''writer'')]]"
       and permissions = "[[(''id'', JStr ''u1''), (''type'', JStr ''user''),
                            (''role'', JStr ''writer'')]]"
       and outcome = "Inr JUndefined" and net = "[]"
       and d = "GoogleSpreadsheet_new ''doc1''
             \<lparr>apiKey = None, authorize = None, getAccessToken = None, token = Some ''t''\<rparr>
             :: unit GoogleSpreadsheet"]
    setPublicAccessLevel_false
    [where listed = "Inr [[(''id'', JStr ''u1''), (''type'', JStr ''user''),
                           (''role'', JStr ''writer'')],
                          [(''id'', JStr ''anyoneWithLink''), (''type'', JStr ''anyone''),
                           (''role'', JStr ''reader'')]]"
       and permissions = "[[(''id'', JStr ''u1''), (''type'', JStr ''user''),
                            (''role'', JStr ''writer'')],
                           [(''id'', JStr ''anyoneWithLink''), (''type'', JStr ''anyone''),
                            (''role'', JStr ''reader'')]]"
       and p = "[(''id'', JStr ''anyoneWithLink''), (''type'', JStr ''anyone''),
                 (''role'', JStr ''reader'')]"
       and outcome = "Inr JUndefined" and net = "[]"
       and d = "GoogleSpreadsheet_new ''doc1''
             \<lparr>apiKey = None, authorize = None, getAccessToken = None, token = Some ''t''\<rparr>
             :: unit GoogleSpreadsheet"]
  by (simp add: setPublicAccessLevel_def listPermissions_def driveApi_def axios_request_def
        setAxiosRequestAuth_def getRequestAuthConfig_def GoogleSpreadsheet_new_def obj_get_def)

section \<open>Document properties\<close>

lemma upsert_rawProperties [simp]:
  "rawProperties (updateOrCreateSheet W s d) = rawProperties d"
  by (simp add: updateOrCreateSheet_def Let_def)

lemma upsert_all_rawProperties [simp]:
  "rawProperties (foldl (\<lambda>d' s. updateOrCreateSheet W s d') d ss) = rawProperties d"
  by (induction ss arbitrary: d) simp_all

lemma setters_throw:
  "set_title v d = (Inl (DirectAssignment ''Do not update directly - use `updateProperties()`''), d)"
  "set_locale v d = (Inl (DirectAssignment ''Do not update directly - use `updateProperties()`''), d)"
  "set_timeZone v d = (Inl (DirectAssignment ''Do not update directly - use `updateProperties()`''), d)"
  "set_autoRecalc v d = (Inl (DirectAssignment ''Do not update directly - use `updateProperties()`''), d)"
  "set_defaultFormat v d = (Inl (DirectAssignment ''Do not update directly - use `updateProperties()`''), d)"
  "set_spreadsheetTheme v d = (Inl (DirectAssignment ''Do not update directly - use `updateProperties()`''), d)"
  "set_iterativeCalculationSettings v d = (Inl (DirectAssignment ''Do not update directly - use `updateProperties()`''), d)"
  by (simp_all add: set_title_def set_locale_def set_timeZone_def set_autoRecalc_def
       set_defaultFormat_def set_spreadsheetTheme_def set_iterativeCalculationSettings_def
       setProp_def)

lemma makeSingleUpdateRequest_net:
  assumes "getRequestAuthConfig (auth d) = Inr c"
  shows "\<exists>rq. snd (snd (makeSingleUpdateRequest W ty ps outcome (d, net))) = net @ [rq]
     \<and> http_method rq = ''post'' \<and> url rq = '':batchUpdate''
     \<and> body rq = JObj [(''requests'', JArr [JObj [(ty, ps)]]),
                       (''includeSpreadsheetInResponse'', JBool True)]"
proof -
  let ?cfg = "\<lparr>baseURL = None, http_method = ''post'', url = '':batchUpdate'', params = [],
              body = JObj [(''requests'', JArr [JObj [(ty, ps)]]),
                           (''includeSpreadsheetInResponse'', JBool True)],
              headers = [], responseType = None\<rparr>"
  obtain rq where rq: "snd (sheetsApi d ?cfg outcome net) = net @ [rq]"
     "http_method rq = http_method ?cfg" "url rq = url ?cfg" "body rq = body ?cfg"
    using axios_request_net[OF assms, of _ ?cfg outcome net]
    unfolding sheetsApi_def by blast
  have "snd (snd (makeSingleUpdateRequest W ty ps outcome (d, net))) =
        snd (sheetsApi d ?cfg outcome net)"
    by (simp add: makeSingleUpdateRequest_def Let_def split: prod.splits sum.splits list.splits)
  with rq show ?thesis by simp
qed

lemma makeSingleUpdateRequest_properties:
  assumes "getRequestAuthConfig (auth d) = Inr c"
  shows "rawProperties (fst (snd (makeSingleUpdateRequest W ty ps (Inr resp) (d, net))))
           = Some (res_properties (updatedSpreadsheet resp))"
  using assms
  by (simp add: makeSingleUpdateRequest_def sheetsApi_def axios_request_def
        setAxiosRequestAuth_def applyUpdatedSpreadsheet_def updateRawProperties_def Let_def
        split: list.splits)

lemma updateProperties_state:
  "snd (updateProperties W gfm props outcome s) =
   snd (makeSingleUpdateRequest W ''updateSpreadsheetProperties''
          (JObj [(''properties'', JObj props), (''fields'', JStr (gfm props))]) outcome s)"
  by (simp add: updateProperties_def split: prod.splits sum.splits)

text \<open>
  Claim C10: assigning to any of the seven document properties throws
  \<open>Do not update directly - use `updateProperties()`\<close> and leaves the document as it
  was. \<open>updateProperties\<close>, under a credential that resolves, sends exactly one
  request, a \<open>:batchUpdate\<close> whose \<open>requests\<close> holds the single entry
  \<open>updateSpreadsheetProperties\<close>; when the wire answers, the cached properties are
  the echoed ones.
\<close>

theorem properties_change_only_by_updateProperties:
  "set_title v d = (Inl (DirectAssignment ''Do not update directly - use `updateProperties()`''), d)
   \<and> set_locale v d = (Inl (DirectAssignment ''Do not update directly - use `updateProperties()`''), d)
   \<and> set_timeZone v d = (Inl (DirectAssignment ''Do not update directly - use `updateProperties()`''), d)
   \<and> set_autoRecalc v d = (Inl (DirectAssignment ''Do not update directly - use `updateProperties()`''), d)
   \<and> set_defaultFormat v d = (Inl (DirectAssignment ''Do not update directly - use `updateProperties()`''), d)
   \<and> set_spreadsheetTheme v d = (Inl (DirectAssignment ''Do not update directly - use `updateProperties()`''), d)
   \<and> set_iterativeCalculationSettings v d = (Inl (DirectAssignment ''Do not update directly - use `updateProperties()`''), d)
   \<and> (getRequestAuthConfig (auth d) = Inr c \<longrightarrow>
      (\<exists>rq. snd (snd (updateProperties W getFieldMask props outcome (d, net))) = net @ [rq]
         \<and> http_method rq = ''post'' \<and> url rq = '':batchUpdate''
         \<and> body rq =
             JObj [(''requests'',
                    JArr [JObj [(''updateSpreadsheetProperties'',
                                 JObj [(''properties'', JObj props),
                                       (''fields'', JStr (getFieldMask props))])]]),
                   (''includeSpreadsheetInResponse'', JBool True)])
      \<and> rawProperties (fst (snd (updateProperties W getFieldMask props (Inr resp) (d, net))))
          = Some (res_properties (updatedSpreadsheet resp)))"
proof (intro conjI impI)
  assume c: "getRequestAuthConfig (auth d) = Inr c"
  show "\<exists>rq. snd (snd (updateProperties W getFieldMask props outcome (d, net))) = net @ [rq]
         \<and> http_method rq = ''post'' \<and> url rq = '':batchUpdate''
         \<and> body rq =
             JObj [(''requests'',
                    JArr [JObj [(''updateSpreadsheetProperties'',
                                 JObj [(''properties'', JObj props),
                                       (''fields'', JStr (getFieldMask props))])]]),
                   (''includeSpreadsheetInResponse'', JBool True)]"
    unfolding updateProperties_state by (rule makeSingleUpdateRequest_net[OF c])
  show "rawProperties (fst (snd (updateProperties W getFieldMask props (Inr resp) (d, net))))
          = Some (res_properties (updatedSpreadsheet resp))"
    unfolding updateProperties_state by (rule makeSingleUpdateRequest_properties[OF c])
qed (rule setters_throw)+

theorem properties_change_only_by_updateProperties_witness:
  "set_title (JStr ''Plan'')
     (GoogleSpreadsheet_new ''doc1''
        \<lparr>apiKey = None, authorize = None, getAccessToken = None, token = Some ''t''\<rparr>
        :: unit GoogleSpreadsheet)
   = (Inl (DirectAssignment ''Do not update directly - use `updateProperties()`''),
      GoogleSpreadsheet_new ''doc1''
        \<lparr>apiKey = None, authorize = None, getAccessToken = None, token = Some ''t''\<rparr>)
   \<and> (case updateProperties
          \<lparr>new_Worksheet = (\<lambda>p dt. ()), updateRawData = (\<lambda>p dt w. ()),
           ws_title = (\<lambda>w. []), ws_index = (\<lambda>w. 0)\<rparr>
          (\<lambda>p. join_comma (map fst p)) [(''title'', JStr ''Plan'')]
          (Inr \<lparr>updatedSpreadsheet =
                  \<lparr>res_spreadsheetId = ''doc1'', res_spreadsheetUrl = ''https://docs.google.com/spreadsheets/d/doc1/edit'',
                   res_properties = [(''title'', JStr ''Plan''), (''locale'', JStr ''en_US'')],
                   res_sheets = []\<rparr>,
                 replies = [[]]\<rparr>)
          (GoogleSpreadsheet_new ''doc1''
             \<lparr>apiKey = None, authorize = None, getAccessToken = None, token = Some ''t''\<rparr>, []) of
        (r, d', net) \<Rightarrow> (r, rawProperties d', map (\<lambda>rq. (http_method rq, url rq, body rq)) net))
   = (Inr (), Some [(''title'', JStr ''Plan''), (''locale'', JStr ''en_US'')],
      [(''post'', '':batchUpdate'',
        JObj [(''requests'',
               JArr [JObj [(''updateSpreadsheetProperties'',
                            JObj [(''properties'', JObj [(''title'', JStr ''Plan'')]),
                                  (''fields'', JStr ''title'')])]]),
              (''includeSpreadsheetInResponse'', JBool True)])])"
  using properties_change_only_by_updateProperties
    [where v = "JStr ''Plan''"
       and d = "GoogleSpreadsheet_new ''doc1''
          \<lparr>apiKey = None, authorize = None, getAccessToken = None, token = Some ''t''\<rparr>
          :: unit GoogleSpreadsheet"
       and c = "\<lparr>auth_headers = Some [(''Authorization'', JStr ''Bearer t'')],
                 auth_params = None\<rparr>"
       and W = "\<lparr>new_Worksheet = (\<lambda>p dt. ()), updateRawData = (\<lambda>p dt w. ()),
                 ws_title = (\<lambda>w. []), ws_index = (\<lambda>w. 0)\<rparr>"
       and getFieldMask = "\<lambda>p. join_comma (map fst p)"
       and props = "[(''title'', JStr ''Plan'')]" and net = "[]"]
  by (simp add: updateProperties_def makeSingleUpdateRequest_def sheetsApi_def
        axios_request_def setAxiosRequestAuth_def getRequestAuthConfig_def
        GoogleSpreadsheet_new_def applyUpdatedSpreadsheet_def updateRawProperties_def
        obj_get_def)

section \<open>The load gate\<close>

lemma unloaded_getProp:
  assumes "rawProperties d = None"
  shows "getProp param d =
    Inl (NotLoaded ''You must call `doc.loadInfo()` before accessing this property'')"
  using assms by (simp add: getProp_def ensureInfoLoaded_def)

lemma unloaded_sheets:
  assumes "rawProperties d = None"
  shows "sheetCount d =
      Inl (NotLoaded ''You must call `doc.loadInfo()` before accessing this property'')"
    "sheetsById d =
      Inl (NotLoaded ''You must call `doc.loadInfo()` before accessing this property'')"
    "sheetsByIndex W d =
      Inl (NotLoaded ''You must call `doc.loadInfo()` before accessing this property'')"
    "sheetsByTitle W d =
      Inl (NotLoaded ''You must call `doc.loadInfo()` before accessing this property'')"
  using assms
  by (simp_all add: sheetCount_def sheetsById_def sheetsByIndex_def sheetsByTitle_def
        ensureInfoLoaded_def)

lemma loaded_getProp:
  assumes "rawProperties d = Some p"
  shows "getProp param d = Inr (obj_get p param)"
  using assms by (simp add: getProp_def ensureInfoLoaded_def)

lemma loaded_sheets:
  assumes "rawProperties d = Some p"
  shows "sheetCount d = Inr (length (map snd (rawSheets d)))"
    "sheetsById d = Inr (rawSheets d)"
    "sheetsByIndex W d =
       Inr (sort_key (\<lambda>x. ws_index W (ws_state x)) (map snd (rawSheets d)))"
    "sheetsByTitle W d =
       Inr (foldl (\<lambda>m x. m(ws_title W (ws_state x) \<mapsto> x)) Map.empty (map snd (rawSheets d)))"
  using assms
  by (simp_all add: sheetCount_def sheetsById_def sheetsByIndex_def sheetsByTitle_def
        ensureInfoLoaded_def)

lemma loadInfo_Inr:
  assumes "fst (loadInfo W ic outcome (d, net)) = Inr ()"
  shows "\<exists>res. outcome = Inr res
     \<and> rawProperties (fst (snd (loadInfo W ic outcome (d, net)))) = Some (res_properties res)"
proof (cases "getRequestAuthConfig (auth d)")
  case (Inl e)
  with assms show ?thesis
    by (simp add: loadInfo_def sheetsApi_def axios_request_def setAxiosRequestAuth_def)
next
  case (Inr c)
  with assms show ?thesis
    by (cases outcome)
       (simp_all add: loadInfo_def sheetsApi_def axios_request_def setAxiosRequestAuth_def)
qed

lemma loadInfo_Inl:
  assumes "fst (loadInfo W ic outcome (d, net)) = Inl e"
  shows "fst (snd (loadInfo W ic outcome (d, net))) = d"
  using assms by (auto simp: loadInfo_def split: prod.splits sum.splits)

text \<open>
  Claim C2 does not hold as the specification words it. The gate is the cached
  properties, not a call of \<open>loadInfo\<close>: on a newly constructed document, never
  loaded, one successful \<open>updateProperties\<close> stores the echoed properties, and the
  accessor \<open>title\<close> then returns the title without raising.
\<close>

theorem title_before_loadInfo_counterexample:
  "get_title (fst (snd (updateProperties
      \<lparr>new_Worksheet = (\<lambda>p dt. ()), updateRawData = (\<lambda>p dt w. ()),
       ws_title = (\<lambda>w. []), ws_index = (\<lambda>w. 0)\<rparr>
      (\<lambda>p. join_comma (map fst p)) [(''title'', JStr ''Plan'')]
      (Inr \<lparr>updatedSpreadsheet =
              \<lparr>res_spreadsheetId = ''doc1'',
               res_spreadsheetUrl = ''https://docs.google.com/spreadsheets/d/doc1/edit'',
               res_properties = [(''title'', JStr ''Plan''), (''locale'', JStr ''en_US'')],
               res_sheets = []\<rparr>,
             replies = [[]]\<rparr>)
      (GoogleSpreadsheet_new ''doc1''
         \<lparr>apiKey = None, authorize = None, getAccessToken = None, token = Some ''t''\<rparr>, []))))
   = Inr (JStr ''Plan'')"
  by (simp add: updateProperties_def makeSingleUpdateRequest_def sheetsApi_def
        axios_request_def setAxiosRequestAuth_def getRequestAuthConfig_def
        GoogleSpreadsheet_new_def applyUpdatedSpreadsheet_def updateRawProperties_def
        get_title_def getProp_def ensureInfoLoaded_def obj_get_def)

text \<open>
  Claim C2, as amended: while the cached properties are unset, every document
  property accessor (\<open>title\<close>, \<open>locale\<close>, \<open>timeZone\<close>, \<open>autoRecalc\<close>, \<open>defaultFormat\<close>,
  \<open>spreadsheetTheme\<close>, \<open>iterativeCalculationSettings\<close>) and every worksheet accessor
  (\<open>sheetCount\<close>, \<open>sheetsById\<close>, \<open>sheetsByIndex\<close>, \<open>sheetsByTitle\<close>) raises the
  not-loaded error. They are unset on a newly constructed document, stay so when a
  \<open>loadInfo\<close> fails, and are unset again after \<open>resetLocalCache\<close>, which takes and
  returns the document alone and so reaches no wire. After a successful \<open>loadInfo\<close>
  every accessor returns the loaded value.
\<close>

theorem accessors_gated_by_rawProperties:
  "(rawProperties d = None \<longrightarrow>
      (let e = NotLoaded ''You must call `doc.loadInfo()` before accessing this property'' in
       get_title d = Inl e \<and> get_locale d = Inl e \<and> get_timeZone d = Inl e
       \<and> get_autoRecalc d = Inl e \<and> get_defaultFormat d = Inl e
       \<and> get_spreadsheetTheme d = Inl e \<and> get_iterativeCalculationSettings d = Inl e
       \<and> sheetCount d = Inl e \<and> sheetsById d = Inl e
       \<and> sheetsByIndex W d = Inl e \<and> sheetsByTitle W d = Inl e))
   \<and> rawProperties (GoogleSpreadsheet_new sid a :: 'w GoogleSpreadsheet) = None
   \<and> (fst (loadInfo W includeCells outcome (d, net)) = Inl err \<longrightarrow>
        fst (snd (loadInfo W includeCells outcome (d, net))) = d)
   \<and> rawProperties (resetLocalCache d) = None
   \<and> (fst (loadInfo W includeCells outcome (d, net)) = Inr () \<longrightarrow>
        (\<exists>res. outcome = Inr res \<and>
          (let d' = fst (snd (loadInfo W includeCells outcome (d, net)));
               p = res_properties res in
           get_title d' = Inr (obj_get p ''title'')
           \<and> get_locale d' = Inr (obj_get p ''locale'')
           \<and> get_timeZone d' = Inr (obj_get p ''timeZone'')
           \<and> get_autoRecalc d' = Inr (obj_get p ''autoRecalc'')
           \<and> get_defaultFormat d' = Inr (obj_get p ''defaultFormat'')
           \<and> get_spreadsheetTheme d' = Inr (obj_get p ''spreadsheetTheme'')
           \<and> get_iterativeCalculationSettings d' =
               Inr (obj_get p ''iterativeCalculationSettings'')
           \<and> sheetCount d' = Inr (length (map snd (rawSheets d')))
           \<and> sheetsById d' = Inr (rawSheets d')
           \<and> sheetsByIndex W d' =
               Inr (sort_key (\<lambda>x. ws_index W (ws_state x)) (map snd (rawSheets d')))
           \<and> sheetsByTitle W d' =
               Inr (foldl (\<lambda>m x. m(ws_title W (ws_state x) \<mapsto> x)) Map.empty
                      (map snd (rawSheets d'))))))"
proof (intro conjI impI)
  assume "rawProperties d = None"
  then show "let e = NotLoaded ''You must call `doc.loadInfo()` before accessing this property'' in
       get_title d = Inl e \<and> get_locale d = Inl e \<and> get_timeZone d = Inl e
       \<and> get_autoRecalc d = Inl e \<and> get_defaultFormat d = Inl e
       \<and> get_spreadsheetTheme d = Inl e \<and> get_iterativeCalculationSettings d = Inl e
       \<and> sheetCount d = Inl e \<and> sheetsById d = Inl e
       \<and> sheetsByIndex W d = Inl e \<and> sheetsByTitle W d = Inl e"
    by (simp add: Let_def get_title_def get_locale_def get_timeZone_def get_autoRecalc_def
          get_defaultFormat_def get_spreadsheetTheme_def get_iterativeCalculationSettings_def
          unloaded_getProp unloaded_sheets)
next
  show "rawProperties (GoogleSpreadsheet_new sid a :: 'w GoogleSpreadsheet) = None"
    by (simp add: GoogleSpreadsheet_new_def)
next
  assume "fst (loadInfo W includeCells outcome (d, net)) = Inl err"
  then show "fst (snd (loadInfo W includeCells outcome (d, net))) = d"
    by (rule loadInfo_Inl)
next
  show "rawProperties (resetLocalCache d) = None"
    by (simp add: resetLocalCache_def)
next
  assume "fst (loadInfo W includeCells outcome (d, net)) = Inr ()"
  then obtain res where res: "outcome = Inr res"
    "rawProperties (fst (snd (loadInfo W includeCells outcome (d, net)))) = Some (res_properties res)"
    using loadInfo_Inr by blast
  have "let d' = fst (snd (loadInfo W includeCells outcome (d, net)));
               p = res_properties res in
           get_title d' = Inr (obj_get p ''title'')
           \<and> get_locale d' = Inr (obj_get p ''locale'')
           \<and> get_timeZone d' = Inr (obj_get p ''timeZone'')
           \<and> get_autoRecalc d' = Inr (obj_get p ''autoRecalc'')
           \<and> get_defaultFormat d' = Inr (obj_get p ''defaultFormat'')
           \<and> get_spreadsheetTheme d' = Inr (obj_get p ''spreadsheetTheme'')
           \<and> get_iterativeCalculationSettings d' =
               Inr (obj_get p ''iterativeCalculationSettings'')
           \<and> sheetCount d' = Inr (length (map snd (rawSheets d')))
           \<and> sheetsById d' = Inr (rawSheets d')
           \<and> sheetsByIndex W d' =
               Inr (sort_key (\<lambda>x. ws_index W (ws_state x)) (map snd (rawSheets d')))
           \<and> sheetsByTitle W d' =
               Inr (foldl (\<lambda>m x. m(ws_title W (ws_state x) \<mapsto> x)) Map.empty
                      (map snd (rawSheets d')))"
    unfolding Let_def get_title_def get_locale_def get_timeZone_def get_autoRecalc_def
      get_defaultFormat_def get_spreadsheetTheme_def get_iterativeCalculationSettings_def
    by (intro conjI loaded_getProp[OF res(2)] loaded_sheets[OF res(2)])
  with res(1) show "\<exists>res. outcome = Inr res \<and>
          (let d' = fst (snd (loadInfo W includeCells outcome (d, net)));
               p = res_properties res in
           get_title d' = Inr (obj_get p ''title'')
           \<and> get_locale d' = Inr (obj_get p ''locale'')
           \<and> get_timeZone d' = Inr (obj_get p ''timeZone'')
           \<and> get_autoRecalc d' = Inr (obj_get p ''autoRecalc'')
           \<and> get_defaultFormat d' = Inr (obj_get p ''defaultFormat'')
           \<and> get_spreadsheetTheme d' = Inr (obj_get p ''spreadsheetTheme'')
           \<and> get_iterativeCalculationSettings d' =
               Inr (obj_get p ''iterativeCalculationSettings'')
           \<and> sheetCount d' = Inr (length (map snd (rawSheets d')))
           \<and> sheetsById d' = Inr (rawSheets d')
           \<and> sheetsByIndex W d' =
               Inr (sort_key (\<lambda>x. ws_index W (ws_state x)) (map snd (rawSheets d')))
           \<and> sheetsByTitle W d' =
               Inr (foldl (\<lambda>m x. m(ws_title W (ws_state x) \<mapsto> x)) Map.empty
                      (map snd (rawSheets d'))))"
    by blast
qed

theorem accessors_gated_by_rawProperties_witness:
  "let W = \<lparr>new_Worksheet = (\<lambda>p dt. (p, dt)), updateRawData = (\<lambda>p dt w. (p, dt)),
            ws_title = (\<lambda>w. title (fst w)), ws_index = (\<lambda>w. index (fst w))\<rparr>;
       d0 = GoogleSpreadsheet_new ''doc1''
              \<lparr>apiKey = Some ''k'', authorize = None, getAccessToken = None, token = None\<rparr>;
       res = \<lparr>res_spreadsheetId = ''doc1'',
              res_spreadsheetUrl = ''https://docs.google.com/spreadsheets/d/doc1/edit'',
              res_properties = [(''title'', JStr ''Plan''), (''locale'', JStr ''en_US'')],
              res_sheets =
                [\<lparr>properties = \<lparr>sheetId = 7, title = ''Notes'', index = 1, rest = []\<rparr>,
                  sheet_data = JUndefined\<rparr>,
                 \<lparr>properties = \<lparr>sheetId = 0, title = ''Data'', index = 0, rest = []\<rparr>,
                  sheet_data = JUndefined\<rparr>]\<rparr>;
       d1 = fst (snd (loadInfo W False (Inr res) (d0, [])))
   in get_title d0 =
        Inl (NotLoaded ''You must call `doc.loadInfo()` before accessing this property'')
      \<and> sheetCount d0 =
        Inl (NotLoaded ''You must call `doc.loadInfo()` before accessing this property'')
      \<and> fst (snd (loadInfo W False (Inl \<lparr>message = ''Network Error'', response = None\<rparr>)
                     (d0, []))) = d0
      \<and> fst (loadInfo W False (Inr res) (d0, [])) = Inr ()
      \<and> get_title d1 = Inr (JStr ''Plan'')
      \<and> get_timeZone d1 = Inr JUndefined
      \<and> sheetCount d1 = Inr 2
      \<and> sheetsByIndex W d1 =
          Inr [\<lparr>oid = 1, ws_state = (\<lparr>sheetId = 0, title = ''Data'', index = 0, rest = []\<rparr>,
                                     JUndefined)\<rparr>,
               \<lparr>oid = 0, ws_state = (\<lparr>sheetId = 7, title = ''Notes'', index = 1, rest = []\<rparr>,
                                     JUndefined)\<rparr>]
      \<and> get_title (resetLocalCache d1) =
        Inl (NotLoaded ''You must call `doc.loadInfo()` before accessing this property'')
      \<and> sheetsByIndex W (resetLocalCache d1) =
        Inl (NotLoaded ''You must call `doc.loadInfo()` before accessing this property'')"
proof -
  let ?W = "\<lparr>new_Worksheet = (\<lambda>p dt. (p, dt)), updateRawData = (\<lambda>p dt w. (p, dt)),
            ws_title = (\<lambda>w. title (fst w)), ws_index = (\<lambda>w. index (fst w))\<rparr>
            :: (WorksheetProperties \<times> jsval) WorksheetClass"
  let ?d0 = "GoogleSpreadsheet_new ''doc1''
              \<lparr>apiKey = Some ''k'', authorize = None, getAccessToken = None, token = None\<rparr>
              :: (WorksheetProperties \<times> jsval) GoogleSpreadsheet"
  let ?res = "\<lparr>res_spreadsheetId = ''doc1'',
              res_spreadsheetUrl = ''https://docs.google.com/spreadsheets/d/doc1/edit'',
              res_properties = [(''title'', JStr ''Plan''), (''locale'', JStr ''en_US'')],
              res_sheets =
                [\<lparr>properties = \<lparr>sheetId = 7, title = ''Notes'', index = 1, rest = []\<rparr>,
                  sheet_data = JUndefined\<rparr>,
                 \<lparr>properties = \<lparr>sheetId = 0, title = ''Data'', index = 0, rest = []\<rparr>,
                  sheet_data = JUndefined\<rparr>]\<rparr>"
  let ?d1 = "fst (snd (loadInfo ?W False (Inr ?res) (?d0, [])))"
  have ok: "fst (loadInfo ?W False (Inr ?res) (?d0, [])) = Inr ()"
    by (simp add: loadInfo_def sheetsApi_def axios_request_def setAxiosRequestAuth_def
          getRequestAuthConfig_def GoogleSpreadsheet_new_def)
  have failed: "fst (loadInfo ?W False (Inl \<lparr>message = ''Network Error'', response = None\<rparr>)
          (?d0, [])) = Inl (Transport \<lparr>message = ''Network Error'', response = None\<rparr>)"
    by (simp add: loadInfo_def sheetsApi_def axios_request_def setAxiosRequestAuth_def
          getRequestAuthConfig_def GoogleSpreadsheet_new_def handleAxiosErrors_def
          response_data_def response_status_def)
  have sheets: "rawSheets ?d1 =
      [(0, \<lparr>oid = 1, ws_state = (\<lparr>sheetId = 0, title = ''Data'', index = 0, rest = []\<rparr>,
                                  JUndefined)\<rparr>),
       (7, \<lparr>oid = 0, ws_state = (\<lparr>sheetId = 7, title = ''Notes'', index = 1, rest = []\<rparr>,
                                  JUndefined)\<rparr>)]"
    by (simp add: loadInfo_def sheetsApi_def axios_request_def setAxiosRequestAuth_def
          getRequestAuthConfig_def GoogleSpreadsheet_new_def updateOrCreateSheet_def)
  note unloaded = accessors_gated_by_rawProperties
      [where d = ?d0 and W = ?W and sid = "''doc1''"
         and a = "\<lparr>apiKey = Some ''k'', authorize = None, getAccessToken = None, token = None\<rparr>"
         and includeCells = False
         and outcome = "Inl \<lparr>message = ''Network Error'', response = None\<rparr>" and net = "[]"
         and err = "Transport \<lparr>message = ''Network Error'', response = None\<rparr>"]
  note loaded = accessors_gated_by_rawProperties
      [where d = ?d0 and W = ?W and includeCells = False and outcome = "Inr ?res" and net = "[]"]
  note reset = accessors_gated_by_rawProperties
      [where d = "resetLocalCache ?d1" and W = ?W]
  have r1: "rawProperties (resetLocalCache ?d1) = None"
    using accessors_gated_by_rawProperties[where d = ?d1] by blast
  show ?thesis
    using unloaded loaded reset ok failed sheets r1
    by (simp add: Let_def obj_get_def GoogleSpreadsheet_new_def)
qed


section \<open>Rows\<close>

lemma row_save_permitted:
  assumes "\<not> deleted row"
  shows "fst (row_save c2l enc ws raw outcome (row, d, net)) \<noteq> Inl (RowDeleted m)"
proof -
  let ?r = "sheetsApi d
               \<lparr>baseURL = None, http_method = ''put'',
                url = ''/values/'' @ enc (a1Range c2l ws row),
                params = [(''valueInputOption'', JStr (if raw then ''RAW'' else ''USER_ENTERED'')),
                          (''includeValuesInResponse'', JBool True)],
                body = JObj [(''range'', JStr (a1Range c2l ws row)),
                             (''majorDimension'', JStr ''ROWS''),
                             (''values'', JArr [rawData row])],
                headers = [], responseType = None\<rparr> outcome net"
  have "fst ?r \<noteq> Inl (RowDeleted m)"
    unfolding sheetsApi_def by (rule axios_request_not_RowDeleted)
  then show ?thesis using assms
    by (cases ?r) (auto simp: row_save_def split: sum.splits)
qed

lemma row_save_sends:
  assumes "\<not> deleted row" "getRequestAuthConfig (auth d) = Inr c"
  shows "\<exists>rq. snd (snd (snd (row_save c2l enc ws raw outcome (row, d, net)))) = net @ [rq]
           \<and> http_method rq = ''put''
           \<and> url rq = ''/values/'' @ enc (a1Range c2l ws row)"
proof -
  let ?cfg = "\<lparr>baseURL = None, http_method = ''put'',
                url = ''/values/'' @ enc (a1Range c2l ws row),
                params = [(''valueInputOption'', JStr (if raw then ''RAW'' else ''USER_ENTERED'')),
                          (''includeValuesInResponse'', JBool True)],
                body = JObj [(''range'', JStr (a1Range c2l ws row)),
                             (''majorDimension'', JStr ''ROWS''),
                             (''values'', JArr [rawData row])],
                headers = [], responseType = None\<rparr>"
  obtain rq where rq: "snd (sheetsApi d ?cfg outcome net) = net @ [rq]"
     "http_method rq = http_method ?cfg" "url rq = url ?cfg"
    using axios_request_net[OF assms(2), of _ ?cfg outcome net]
    unfolding sheetsApi_def by blast
  have "snd (snd (snd (row_save c2l enc ws raw outcome (row, d, net)))) =
        snd (sheetsApi d ?cfg outcome net)"
    using assms(1) by (simp add: row_save_def split: prod.splits sum.splits)
  with rq show ?thesis by simp
qed

lemma row_save_keeps_flag:
  "deleted (fst (snd (row_save c2l enc ws raw outcome (row, d, net)))) = deleted row"
  by (simp add: row_save_def split: prod.splits sum.splits)

lemma makeSingleUpdateRequest_not_RowDeleted:
  "fst (makeSingleUpdateRequest W ty ps outcome (d, net)) \<noteq> Inl (RowDeleted m)"
proof -
  let ?r = "sheetsApi d \<lparr>baseURL = None, http_method = ''post'', url = '':batchUpdate'',
              params = [],
              body = JObj [(''requests'', JArr [JObj [(ty, ps)]]),
                           (''includeSpreadsheetInResponse'', JBool True)],
              headers = [], responseType = None\<rparr> outcome net"
  have "fst ?r \<noteq> Inl (RowDeleted m)"
    unfolding sheetsApi_def by (rule axios_request_not_RowDeleted)
  then show ?thesis
    by (cases ?r) (auto simp: makeSingleUpdateRequest_def Let_def split: sum.splits list.splits)
qed

lemma row_delete_permitted:
  assumes "\<not> deleted row"
  shows "fst (row_delete W ws outcome (row, d, net)) \<noteq> Inl (RowDeleted m)"
proof -
  let ?r = "makeSingleUpdateRequest W ''deleteRange''
               (JObj [(''range'',
                       JObj [(''sheetId'', JNum (int (row_sheetId ws))),
                             (''startRowIndex'', JNum (int (rowNumber row) - 1)),
                             (''endRowIndex'', JNum (int (rowNumber row)))]),
                      (''shiftDimension'', JStr ''ROWS'')])
               outcome (d, net)"
  have "fst ?r \<noteq> Inl (RowDeleted m)" by (rule makeSingleUpdateRequest_not_RowDeleted)
  then show ?thesis using assms
    by (cases ?r) (auto simp: row_delete_def split: sum.splits)
qed

lemma row_delete_sends:
  assumes "\<not> deleted row" "getRequestAuthConfig (auth d) = Inr c"
  shows "\<exists>rq. snd (snd (snd (row_delete W ws outcome (row, d, net)))) = net @ [rq]
           \<and> http_method rq = ''post'' \<and> url rq = '':batchUpdate''"
proof -
  let ?ps = "JObj [(''range'',
                       JObj [(''sheetId'', JNum (int (row_sheetId ws))),
                             (''startRowIndex'', JNum (int (rowNumber row) - 1)),
                             (''endRowIndex'', JNum (int (rowNumber row)))]),
                      (''shiftDimension'', JStr ''ROWS'')]"
  obtain rq where rq:
    "snd (snd (makeSingleUpdateRequest W ''deleteRange'' ?ps outcome (d, net))) = net @ [rq]"
    "http_method rq = ''post''" "url rq = '':batchUpdate''"
    using makeSingleUpdateRequest_net[OF assms(2), of W "''deleteRange''" ?ps outcome net]
    by blast
  have "snd (snd (snd (row_delete W ws outcome (row, d, net)))) =
        snd (snd (makeSingleUpdateRequest W ''deleteRange'' ?ps outcome (d, net)))"
    using assms(1) by (simp add: row_delete_def split: prod.splits sum.splits)
  with rq show ?thesis by simp
qed

lemma row_delete_marks:
  assumes "fst (row_delete W ws outcome s) = Inr r"
  shows "deleted (fst (snd (row_delete W ws outcome s)))"
  using assms
  by (cases s) (auto simp: row_delete_def split: if_splits prod.splits sum.splits)

lemma row_delete_failed_keeps_flag:
  assumes "fst (row_delete W ws outcome (row, d, net)) = Inl e"
  shows "deleted (fst (snd (row_delete W ws outcome (row, d, net)))) = deleted row"
  using assms
  by (auto simp: row_delete_def split: if_splits prod.splits sum.splits)

lemma row_step_deleted:
  assumes "deleted row"
  shows "row_step c2l enc W ws call (row, d, net) =
    (Inl (RowDeleted ''This row has been deleted - call getRows again before making updates.''),
     row, d, net)"
  using assms by (cases call) (simp_all add: row_step_def row_save_def row_delete_def)

lemma row_run_deleted:
  assumes "deleted (fst s)"
  shows "row_run c2l enc W ws calls s =
    (map (\<lambda>call. Inl (RowDeleted
            ''This row has been deleted - call getRows again before making updates.'')) calls,
     s)"
proof -
  obtain row d net where s: "s = (row, d, net)" by (cases s)
  with assms have "deleted row" by simp
  then have "row_run c2l enc W ws calls (row, d, net) =
    (map (\<lambda>call. Inl (RowDeleted
            ''This row has been deleted - call getRows again before making updates.'')) calls,
     row, d, net)"
    by (induction calls) (simp_all add: row_step_deleted)
  with s show ?thesis by simp
qed

text \<open>
  Claim C3: a row is constructed with its deleted flag false, and no save and no
  failed delete changes the flag. While the flag is false, neither \<open>save\<close> nor
  \<open>delete\<close> raises the row-deleted error, and under a credential that resolves each
  sends its request. After a \<open>delete\<close> that returned, the flag is true, and every
  call of every later sequence of \<open>save\<close> and \<open>delete\<close> calls raises the row-deleted
  error and leaves the row, the document and the wire as they were: no request is
  sent.
\<close>

theorem deleted_row_rejects_all_calls:
  "\<not> deleted (GoogleSpreadsheetRow_new n cells)
   \<and> deleted (fst (snd (row_save c2l enc ws raw saved (row, d, net)))) = deleted row
   \<and> (fst (row_delete W ws answer (row, d, net)) = Inl e \<longrightarrow>
        deleted (fst (snd (row_delete W ws answer (row, d, net)))) = deleted row)
   \<and> (\<not> deleted row \<longrightarrow>
        fst (row_save c2l enc ws raw saved (row, d, net)) \<noteq> Inl (RowDeleted m)
        \<and> fst (row_delete W ws answer (row, d, net)) \<noteq> Inl (RowDeleted m))
   \<and> (\<not> deleted row \<and> getRequestAuthConfig (auth d) = Inr c \<longrightarrow>
        (\<exists>rq. snd (snd (snd (row_save c2l enc ws raw saved (row, d, net)))) = net @ [rq]
           \<and> http_method rq = ''put''
           \<and> url rq = ''/values/'' @ enc (a1Range c2l ws row))
        \<and> (\<exists>rq. snd (snd (snd (row_delete W ws answer (row, d, net)))) = net @ [rq]
           \<and> http_method rq = ''post'' \<and> url rq = '':batchUpdate''))
   \<and> (fst (row_delete W ws answer (row, d, net)) = Inr r \<longrightarrow>
        deleted (fst (snd (row_delete W ws answer (row, d, net))))
        \<and> row_run c2l enc W ws calls (snd (row_delete W ws answer (row, d, net))) =
            (map (\<lambda>call. Inl (RowDeleted
                ''This row has been deleted - call getRows again before making updates.'')) calls,
             snd (row_delete W ws answer (row, d, net))))"
proof (intro conjI impI)
  show "\<not> deleted (GoogleSpreadsheetRow_new n cells)"
    by (simp add: GoogleSpreadsheetRow_new_def)
next
  show "deleted (fst (snd (row_save c2l enc ws raw saved (row, d, net)))) = deleted row"
    by (rule row_save_keeps_flag)
next
  assume "fst (row_delete W ws answer (row, d, net)) = Inl e"
  then show "deleted (fst (snd (row_delete W ws answer (row, d, net)))) = deleted row"
    by (rule row_delete_failed_keeps_flag)
next
  assume "\<not> deleted row"
  then show "fst (row_save c2l enc ws raw saved (row, d, net)) \<noteq> Inl (RowDeleted m)"
    and "fst (row_delete W ws answer (row, d, net)) \<noteq> Inl (RowDeleted m)"
    by (rule row_save_permitted, rule row_delete_permitted)
next
  assume h: "\<not> deleted row \<and> getRequestAuthConfig (auth d) = Inr c"
  show "\<exists>rq. snd (snd (snd (row_save c2l enc ws raw saved (row, d, net)))) = net @ [rq]
           \<and> http_method rq = ''put''
           \<and> url rq = ''/values/'' @ enc (a1Range c2l ws row)"
    by (rule row_save_sends[OF h[THEN conjunct1] h[THEN conjunct2]])
  show "\<exists>rq. snd (snd (snd (row_delete W ws answer (row, d, net)))) = net @ [rq]
           \<and> http_method rq = ''post'' \<and> url rq = '':batchUpdate''"
    by (rule row_delete_sends[OF h[THEN conjunct1] h[THEN conjunct2]])
next
  assume ok: "fst (row_delete W ws answer (row, d, net)) = Inr r"
  then show flag: "deleted (fst (snd (row_delete W ws answer (row, d, net))))"
    by (rule row_delete_marks)
  show "row_run c2l enc W ws calls (snd (row_delete W ws answer (row, d, net))) =
            (map (\<lambda>call. Inl (RowDeleted
                ''This row has been deleted - call getRows again before making updates.'')) calls,
             snd (row_delete W ws answer (row, d, net)))"
    using flag by (rule row_run_deleted)
qed

theorem deleted_row_rejects_all_calls_witness:
  "let W = \<lparr>new_Worksheet = (\<lambda>p dt. ()), updateRawData = (\<lambda>p dt w. ()),
            ws_title = (\<lambda>w. []), ws_index = (\<lambda>w. 0)\<rparr>;
       ws = \<lparr>a1SheetName = ''Sheet1'', headerValues = [''name'', ''age''], row_sheetId = 0\<rparr>;
       d = GoogleSpreadsheet_new ''doc1''
             \<lparr>apiKey = None, authorize = None, getAccessToken = None, token = Some ''t''\<rparr>;
       row = GoogleSpreadsheetRow_new 2 (JArr [JStr ''Al'', JStr ''30'']);
       echo = \<lparr>updatedSpreadsheet =
                 \<lparr>res_spreadsheetId = ''doc1'',
                  res_spreadsheetUrl = ''https://docs.google.com/spreadsheets/d/doc1/edit'',
                  res_properties = [(''title'', JStr ''Plan'')], res_sheets = []\<rparr>,
               replies = [[]]\<rparr>;
       gone = row_delete W ws (Inr echo) (row, d, [])
   in \<not> deleted row
      \<and> map (\<lambda>rq. (http_method rq, url rq))
           (snd (snd (snd (row_save (\<lambda>n. ''B'') (\<lambda>s. s) ws False
              (Inr [JArr [JStr ''Al'', JStr ''31'']]) (row, d, [])))))
         = [(''put'', ''/values/Sheet1!A2:B2'')]
      \<and> fst gone = Inr JUndefined
      \<and> deleted (fst (snd gone))
      \<and> map (\<lambda>rq. (http_method rq, url rq)) (snd (snd (snd gone))) = [(''post'', '':batchUpdate'')]
      \<and> row_run (\<lambda>n. ''B'') (\<lambda>s. s) W ws
           [Save False (Inr [JArr [JStr ''Al'', JStr ''31'']]), Delete (Inr echo), Save True (Inr [])]
           (snd gone)
         = ([Inl (RowDeleted ''This row has been deleted - call getRows again before making updates.''),
             Inl (RowDeleted ''This row has been deleted - call getRows again before making updates.''),
             Inl (RowDeleted ''This row has been deleted - call getRows again before making updates.'')],
            snd gone)"
proof -
  let ?W = "\<lparr>new_Worksheet = (\<lambda>p dt. ()), updateRawData = (\<lambda>p dt w. ()),
            ws_title = (\<lambda>w. []), ws_index = (\<lambda>w. 0)\<rparr> :: unit WorksheetClass"
  let ?ws = "\<lparr>a1SheetName = ''Sheet1'', headerValues = [''name'', ''age''], row_sheetId = 0\<rparr>"
  let ?d = "GoogleSpreadsheet_new ''doc1''
             \<lparr>apiKey = None, authorize = None, getAccessToken = None, token = Some ''t''\<rparr>
             :: unit GoogleSpreadsheet"
  let ?row = "GoogleSpreadsheetRow_new 2 (JArr [JStr ''Al'', JStr ''30''])"
  let ?echo = "\<lparr>updatedSpreadsheet =
                 \<lparr>res_spreadsheetId = ''doc1'',
                  res_spreadsheetUrl = ''https://docs.google.com/spreadsheets/d/doc1/edit'',
                  res_properties = [(''title'', JStr ''Plan'')], res_sheets = []\<rparr>,
               replies = [[]]\<rparr>"
  have gone: "fst (row_delete ?W ?ws (Inr ?echo) (?row, ?d, [])) = Inr JUndefined"
    by (simp add: row_delete_def GoogleSpreadsheetRow_new_def makeSingleUpdateRequest_def
          sheetsApi_def axios_request_def setAxiosRequestAuth_def getRequestAuthConfig_def
          GoogleSpreadsheet_new_def obj_get_def)
  have sent: "map (\<lambda>rq. (http_method rq, url rq))
      (snd (snd (snd (row_delete ?W ?ws (Inr ?echo) (?row, ?d, []))))) = [(''post'', '':batchUpdate'')]"
    by (simp add: row_delete_def GoogleSpreadsheetRow_new_def makeSingleUpdateRequest_def
          sheetsApi_def axios_request_def setAxiosRequestAuth_def getRequestAuthConfig_def
          GoogleSpreadsheet_new_def)
  have saved: "map (\<lambda>rq. (http_method rq, url rq))
           (snd (snd (snd (row_save (\<lambda>n. ''B'') (\<lambda>s. s) ?ws False
              (Inr [JArr [JStr ''Al'', JStr ''31'']]) (?row, ?d, [])))))
         = [(''put'', ''/values/Sheet1!A2:B2'')]"
    by (simp add: row_save_def GoogleSpreadsheetRow_new_def a1Range_def show_nat.simps digit_def
          sheetsApi_def axios_request_def setAxiosRequestAuth_def getRequestAuthConfig_def
          GoogleSpreadsheet_new_def)
  note inst = deleted_row_rejects_all_calls
      [where W = ?W and ws = ?ws and d = ?d and row = ?row and answer = "Inr ?echo"
         and net = "[]" and r = JUndefined and n = 2 and cells = "JArr [JStr ''Al'', JStr ''30'']"
         and c2l = "\<lambda>n. ''B''" and enc = "\<lambda>s. s"
         and calls = "[Save False (Inr [JArr [JStr ''Al'', JStr ''31'']]), Delete (Inr ?echo),
                       Save True (Inr [])]"]
  show ?thesis
    using inst gone sent saved by (simp add: Let_def)
qed


section \<open>Upserting echoed sheets\<close>

lemma map_of_sheets_put:
  "map_of (sheets_put k v s) k' = (if k' = k then Some v else map_of s k')"
  by (induction s) auto

lemma map_of_sheets_modify:
  "map_of (sheets_modify k f s) k' =
     (if k' = k then map_option (\<lambda>x. x\<lparr>ws_state := f (ws_state x)\<rparr>) (map_of s k') else map_of s k')"
  by (induction s) (auto simp: sheets_modify_def)

lemma set_sheets_put_other:
  "k' \<noteq> k \<Longrightarrow> (k', x) \<in> set (sheets_put k v s) \<longleftrightarrow> (k', x) \<in> set s"
proof (induction s)
  case Nil
  then show ?case by simp
next
  case (Cons a s)
  then show ?case by (cases a) (auto split: if_splits)
qed

lemma set_sheets_put_absent:
  "map_of s k = None \<Longrightarrow> (k, x) \<in> set (sheets_put k v s) \<longleftrightarrow> x = v"
proof (induction s)
  case Nil
  then show ?case by auto
next
  case (Cons a s)
  obtain k' v' where a: "a = (k', v')" by (cases a)
  from Cons.prems a have ne: "k' \<noteq> k" and rest: "map_of s k = None"
    by (auto split: if_splits)
  from rest have notin: "(k, x) \<notin> set s"
    by (metis map_of_eq_None_iff fst_conv image_eqI)
  show ?case
  proof (cases "k < k'")
    case True
    with a ne notin show ?thesis by auto
  next
    case False
    with a ne Cons.IH[OF rest] show ?thesis by auto
  qed
qed

lemma set_sheets_modify:
  "(k', y) \<in> set (sheets_modify k f s) \<longleftrightarrow>
     (if k' = k then \<exists>x. (k, x) \<in> set s \<and> y = x\<lparr>ws_state := f (ws_state x)\<rparr> else (k', y) \<in> set s)"
proof (induction s)
  case Nil
  then show ?case by (simp add: sheets_modify_def)
next
  case (Cons a s)
  obtain ka xa where a: "a = (ka, xa)" by (cases a)
  have unfold: "sheets_modify k f (a # s) =
      (if ka = k then (ka, xa\<lparr>ws_state := f (ws_state xa)\<rparr>) else (ka, xa)) # sheets_modify k f s"
    by (simp add: sheets_modify_def a)
  show ?case
    unfolding unfold using Cons.IH a by (cases "ka = k"; cases "k' = k") auto
qed

lemma sheets_modify_fixed:
  "\<forall>x. (k, x) \<in> set s \<longrightarrow> f (ws_state x) = ws_state x \<Longrightarrow> sheets_modify k f s = s"
  unfolding sheets_modify_def by (induction s) auto

lemma settled_noop:
  assumes "settled W info d"
  shows "updateOrCreateSheet W info d = d"
proof -
  from assms have present: "map_of (rawSheets d) (sheetId (properties info)) \<noteq> None"
    and fixed: "\<forall>x. (sheetId (properties info), x) \<in> set (rawSheets d) \<longrightarrow>
            updateRawData W (properties info) (sheet_data info) (ws_state x) = ws_state x"
    by (auto simp: settled_def)
  have "sheets_modify (sheetId (properties info))
          (updateRawData W (properties info) (sheet_data info)) (rawSheets d) = rawSheets d"
    using fixed by (rule sheets_modify_fixed)
  moreover obtain y where "map_of (rawSheets d) (sheetId (properties info)) = Some y"
    using present by blast
  ultimately show ?thesis
    by (simp add: updateOrCreateSheet_def Let_def)
qed

lemma settled_all_noop:
  "\<forall>info\<in>set infos. settled W info d \<Longrightarrow> foldl (\<lambda>d' s. updateOrCreateSheet W s d') d infos = d"
  by (induction infos) (simp_all add: settled_noop)

lemma upsert_settles:
  assumes "\<And>p dt w. updateRawData W p dt (updateRawData W p dt w) = updateRawData W p dt w"
    and "\<And>p dt. updateRawData W p dt (new_Worksheet W p dt) = new_Worksheet W p dt"
  shows "settled W info (updateOrCreateSheet W info d)"
proof (cases "map_of (rawSheets d) (sheetId (properties info))")
  case None
  then show ?thesis
    by (simp add: settled_def updateOrCreateSheet_def Let_def map_of_sheets_put
          set_sheets_put_absent assms(2))
next
  case (Some x)
  then show ?thesis
    by (auto simp: settled_def updateOrCreateSheet_def Let_def map_of_sheets_modify
          set_sheets_modify assms(1))
qed

lemma upsert_other_settled:
  assumes "sheetId (properties info') \<noteq> sheetId (properties info)" "settled W info d"
  shows "settled W info (updateOrCreateSheet W info' d)"
  using assms
  by (auto simp: settled_def updateOrCreateSheet_def Let_def map_of_sheets_put map_of_sheets_modify
        set_sheets_put_other set_sheets_modify)

lemma upsert_all_other_settled:
  assumes "sheetId (properties info) \<notin> set (map (\<lambda>s. sheetId (properties s)) infos)" "settled W info d"
  shows "settled W info (foldl (\<lambda>d' s. updateOrCreateSheet W s d') d infos)"
  using assms
proof (induction infos arbitrary: d)
  case Nil
  then show ?case by simp
next
  case (Cons a infos)
  have "settled W info (updateOrCreateSheet W a d)"
    using Cons.prems by (intro upsert_other_settled) auto
  with Cons show ?case by simp
qed

lemma upsert_all_settles:
  assumes "\<And>p dt w. updateRawData W p dt (updateRawData W p dt w) = updateRawData W p dt w"
    and "\<And>p dt. updateRawData W p dt (new_Worksheet W p dt) = new_Worksheet W p dt"
    and "distinct (map (\<lambda>s. sheetId (properties s)) infos)"
  shows "\<forall>info\<in>set infos. settled W info (foldl (\<lambda>d' s. updateOrCreateSheet W s d') d infos)"
  using assms(3)
proof (induction infos arbitrary: d)
  case Nil
  then show ?case by simp
next
  case (Cons a infos)
  let ?d = "updateOrCreateSheet W a d"
  have a: "settled W a ?d" by (rule upsert_settles[OF assms(1,2)])
  have "settled W a (foldl (\<lambda>d' s. updateOrCreateSheet W s d') ?d infos)"
    using Cons.prems a by (intro upsert_all_other_settled) auto
  moreover have "\<forall>info\<in>set infos. settled W info (foldl (\<lambda>d' s. updateOrCreateSheet W s d') ?d infos)"
    using Cons by simp
  ultimately show ?case by simp
qed

lemma applyUpdatedSpreadsheet_idem:
  assumes "\<And>p dt w. updateRawData W p dt (updateRawData W p dt w) = updateRawData W p dt w"
    and "\<And>p dt. updateRawData W p dt (new_Worksheet W p dt) = new_Worksheet W p dt"
    and "distinct (map (\<lambda>s. sheetId (properties s)) (res_sheets us))"
  shows "applyUpdatedSpreadsheet W us (applyUpdatedSpreadsheet W us d) = applyUpdatedSpreadsheet W us d"
proof -
  let ?d1 = "applyUpdatedSpreadsheet W us d"
  have s: "\<forall>info\<in>set (res_sheets us). settled W info ?d1"
    unfolding applyUpdatedSpreadsheet_def by (rule upsert_all_settles[OF assms])
  have p: "updateRawProperties (res_properties us) ?d1 = ?d1"
    by (simp add: updateRawProperties_def applyUpdatedSpreadsheet_def)
  have "applyUpdatedSpreadsheet W us ?d1 = foldl (\<lambda>d' s. updateOrCreateSheet W s d') ?d1 (res_sheets us)"
    by (subst (1) applyUpdatedSpreadsheet_def) (simp only: p)
  also have "\<dots> = ?d1" by (rule settled_all_noop[OF s])
  finally show ?thesis .
qed

lemma upsert_present:
  assumes "map_of (rawSheets d) (sheetId (properties info)) = Some x"
  shows "map_of (rawSheets (updateOrCreateSheet W info d)) (sheetId (properties info)) =
           Some \<lparr>oid = oid x, ws_state = updateRawData W (properties info) (sheet_data info) (ws_state x)\<rparr>"
    "allocated (updateOrCreateSheet W info d) = allocated d"
  using assms by (simp_all add: updateOrCreateSheet_def Let_def map_of_sheets_modify)

lemma upsert_absent:
  assumes "map_of (rawSheets d) (sheetId (properties info)) = None"
  shows "map_of (rawSheets (updateOrCreateSheet W info d)) (sheetId (properties info)) =
           Some \<lparr>oid = allocated d, ws_state = new_Worksheet W (properties info) (sheet_data info)\<rparr>"
    "allocated (updateOrCreateSheet W info d) = Suc (allocated d)"
  using assms by (simp_all add: updateOrCreateSheet_def Let_def map_of_sheets_put)

lemma upsert_others:
  assumes "k \<noteq> sheetId (properties info)"
  shows "map_of (rawSheets (updateOrCreateSheet W info d)) k = map_of (rawSheets d) k"
  using assms by (simp add: updateOrCreateSheet_def Let_def map_of_sheets_put map_of_sheets_modify)


text \<open>
  Claim C1: applying an echoed document state a second time leaves the cache as the
  first application left it. The sheets of a document state have distinct ids, and
  the worksheet class, a parameter here, is taken to merge idempotently:
  \<open>updateRawData\<close> with the same properties and data twice is as once, and after
  construction from them changes nothing. Upserting a
  sheet whose id is in the worksheet map keeps the worksheet object under that id,
  with the identity it had, and merges into its state; no object is constructed. Only
  for an id that is not in the map is a worksheet constructed, with a new identity.
\<close>

theorem upsert_idempotent_keeps_identity:
  assumes "\<And>p dt w. updateRawData W p dt (updateRawData W p dt w) = updateRawData W p dt w"
    and "\<And>p dt. updateRawData W p dt (new_Worksheet W p dt) = new_Worksheet W p dt"
    and "distinct (map (\<lambda>s. sheetId (properties s)) (res_sheets us))"
  shows "applyUpdatedSpreadsheet W us (applyUpdatedSpreadsheet W us d) = applyUpdatedSpreadsheet W us d
    \<and> (map_of (rawSheets d) (sheetId (properties info)) = Some x \<longrightarrow>
         map_of (rawSheets (updateOrCreateSheet W info d)) (sheetId (properties info)) =
           Some \<lparr>oid = oid x,
                 ws_state = updateRawData W (properties info) (sheet_data info) (ws_state x)\<rparr>
         \<and> allocated (updateOrCreateSheet W info d) = allocated d)
    \<and> (map_of (rawSheets d) (sheetId (properties info)) = None \<longrightarrow>
         map_of (rawSheets (updateOrCreateSheet W info d)) (sheetId (properties info)) =
           Some \<lparr>oid = allocated d,
                 ws_state = new_Worksheet W (properties info) (sheet_data info)\<rparr>
         \<and> allocated (updateOrCreateSheet W info d) = Suc (allocated d))
    \<and> (k \<noteq> sheetId (properties info) \<longrightarrow>
         map_of (rawSheets (updateOrCreateSheet W info d)) k = map_of (rawSheets d) k)"
proof (intro conjI impI)
  show "applyUpdatedSpreadsheet W us (applyUpdatedSpreadsheet W us d) = applyUpdatedSpreadsheet W us d"
    by (rule applyUpdatedSpreadsheet_idem[OF assms])
next
  assume h: "map_of (rawSheets d) (sheetId (properties info)) = Some x"
  show "map_of (rawSheets (updateOrCreateSheet W info d)) (sheetId (properties info)) =
           Some \<lparr>oid = oid x,
                 ws_state = updateRawData W (properties info) (sheet_data info) (ws_state x)\<rparr>"
    by (rule upsert_present(1)[OF h])
  show "allocated (updateOrCreateSheet W info d) = allocated d"
    by (rule upsert_present(2)[OF h])
next
  assume h: "map_of (rawSheets d) (sheetId (properties info)) = None"
  show "map_of (rawSheets (updateOrCreateSheet W info d)) (sheetId (properties info)) =
           Some \<lparr>oid = allocated d,
                 ws_state = new_Worksheet W (properties info) (sheet_data info)\<rparr>"
    by (rule upsert_absent(1)[OF h])
  show "allocated (updateOrCreateSheet W info d) = Suc (allocated d)"
    by (rule upsert_absent(2)[OF h])
next
  assume "k \<noteq> sheetId (properties info)"
  then show "map_of (rawSheets (updateOrCreateSheet W info d)) k = map_of (rawSheets d) k"
    by (rule upsert_others)
qed

theorem upsert_idempotent_keeps_identity_witness:
  "let W = \<lparr>new_Worksheet = (\<lambda>p dt. (p, dt)), updateRawData = (\<lambda>p dt w. (p, dt)),
            ws_title = (\<lambda>w. title (fst w)), ws_index = (\<lambda>w. index (fst w))\<rparr>;
       old = \<lparr>properties = \<lparr>sheetId = 0, title = ''Sheet1'', index = 0, rest = []\<rparr>,
              sheet_data = JUndefined\<rparr>;
       renamed = \<lparr>properties = \<lparr>sheetId = 0, title = ''Data'', index = 1, rest = []\<rparr>,
                  sheet_data = JArr [JStr ''a'']\<rparr>;
       added = \<lparr>properties = \<lparr>sheetId = 7, title = ''Notes'', index = 0, rest = []\<rparr>,
                sheet_data = JUndefined\<rparr>;
       us = \<lparr>res_spreadsheetId = ''doc1'',
             res_spreadsheetUrl = ''https://docs.google.com/spreadsheets/d/doc1/edit'',
             res_properties = [(''title'', JStr ''Plan'')],
             res_sheets = [added, renamed]\<rparr>;
       d = updateOrCreateSheet W old
             (GoogleSpreadsheet_new ''doc1''
                \<lparr>apiKey = None, authorize = None, getAccessToken = None, token = Some ''t''\<rparr>)
   in map_of (rawSheets d) 0 = Some \<lparr>oid = 0, ws_state = (properties old, JUndefined)\<rparr>
      \<and> map_of (rawSheets d) 7 = None
      \<and> applyUpdatedSpreadsheet W us (applyUpdatedSpreadsheet W us d) = applyUpdatedSpreadsheet W us d
      \<and> rawSheets (applyUpdatedSpreadsheet W us d) =
           [(0, \<lparr>oid = 0, ws_state = (properties renamed, JArr [JStr ''a''])\<rparr>),
            (7, \<lparr>oid = 1, ws_state = (properties added, JUndefined)\<rparr>)]
      \<and> map_of (rawSheets (updateOrCreateSheet W renamed d)) 0 =
           Some \<lparr>oid = 0, ws_state = (properties renamed, JArr [JStr ''a''])\<rparr>
      \<and> allocated (updateOrCreateSheet W renamed d) = 1
      \<and> map_of (rawSheets (updateOrCreateSheet W added d)) 7 =
           Some \<lparr>oid = 1, ws_state = (properties added, JUndefined)\<rparr>
      \<and> allocated (updateOrCreateSheet W added d) = 2
      \<and> map_of (rawSheets (updateOrCreateSheet W added d)) 0 = map_of (rawSheets d) 0"
proof -
  let ?W = "\<lparr>new_Worksheet = (\<lambda>p dt. (p, dt)), updateRawData = (\<lambda>p dt w. (p, dt)),
            ws_title = (\<lambda>w. title (fst w)), ws_index = (\<lambda>w. index (fst w))\<rparr>
            :: (WorksheetProperties \<times> jsval) WorksheetClass"
  let ?old = "\<lparr>properties = \<lparr>sheetId = 0, title = ''Sheet1'', index = 0, rest = []\<rparr>,
              sheet_data = JUndefined\<rparr>"
  let ?renamed = "\<lparr>properties = \<lparr>sheetId = 0, title = ''Data'', index = 1, rest = []\<rparr>,
                  sheet_data = JArr [JStr ''a'']\<rparr>"
  let ?added = "\<lparr>properties = \<lparr>sheetId = 7, title = ''Notes'', index = 0, rest = []\<rparr>,
                sheet_data = JUndefined\<rparr>"
  let ?us = "\<lparr>res_spreadsheetId = ''doc1'',
             res_spreadsheetUrl = ''https://docs.google.com/spreadsheets/d/doc1/edit'',
             res_properties = [(''title'', JStr ''Plan'')],
             res_sheets = [?added, ?renamed]\<rparr>"
  let ?d = "updateOrCreateSheet ?W ?old
             (GoogleSpreadsheet_new ''doc1''
                \<lparr>apiKey = None, authorize = None, getAccessToken = None, token = Some ''t''\<rparr>)"
  have merge_twice: "\<And>p dt w. updateRawData ?W p dt (updateRawData ?W p dt w) = updateRawData ?W p dt w"
    by simp
  have merge_new: "\<And>p dt. updateRawData ?W p dt (new_Worksheet ?W p dt) = new_Worksheet ?W p dt"
    by simp
  have ids: "distinct (map (\<lambda>s. sheetId (properties s)) (res_sheets ?us))"
    by simp
  have d: "rawSheets ?d = [(0, \<lparr>oid = 0, ws_state = (properties ?old, JUndefined)\<rparr>)]"
     "allocated ?d = 1"
    by (simp_all add: updateOrCreateSheet_def GoogleSpreadsheet_new_def)
  have once: "rawSheets (applyUpdatedSpreadsheet ?W ?us ?d) =
           [(0, \<lparr>oid = 0, ws_state = (properties ?renamed, JArr [JStr ''a''])\<rparr>),
            (7, \<lparr>oid = 1, ws_state = (properties ?added, JUndefined)\<rparr>)]"
    by (simp add: applyUpdatedSpreadsheet_def updateRawProperties_def updateOrCreateSheet_def
          GoogleSpreadsheet_new_def sheets_modify_def)
  note present = upsert_idempotent_keeps_identity
      [OF merge_twice merge_new ids, where d = ?d and info = ?renamed
         and x = "\<lparr>oid = 0, ws_state = (properties ?old, JUndefined)\<rparr>"]
  note absent = upsert_idempotent_keeps_identity
      [OF merge_twice merge_new ids, where d = ?d and info = ?added and k = 0]
  show ?thesis
    using present absent d once by (simp add: Let_def)
qed

end
